theory Spec2Isabelle
  imports Complex_Main
begin

section \<open>Token model\<close>

text \<open>
  The token class hierarchy of the expression evaluator as a closed tagged union.
  \<^verbatim>\<open>operator.hpp\<close> gives the operator classes: \<^verbatim>\<open>Power\<close> and \<^verbatim>\<open>Assignment\<close> derive from
  \<^verbatim>\<open>RAssocOperator\<close>, the seventeen other binary operators from \<^verbatim>\<open>LAssocOperator\<close>,
  \<^verbatim>\<open>Identity\<close>, \<^verbatim>\<open>Negation\<close>, \<^verbatim>\<open>Not\<close> from \<^verbatim>\<open>UnaryOperator\<close>, and \<^verbatim>\<open>Factorial\<close> from
  \<^verbatim>\<open>PostfixOperator\<close>, which itself derives from \<^verbatim>\<open>UnaryOperator\<close>.
  Constructors whose source name is already a HOL constant carry the suffix \<open>T\<close>.
\<close>

datatype operator =
    Power | Assignment
  | Addition | And | Division | Equality | Greater | GreaterEqual | Inequality
  | Less | LessEqual | Multiplication | Modulus | Nand | Nor | Or | Subtraction
  | Xor | Xnor
  | Identity | Negation | NotT
  | Factorial

text \<open>
  Modelled from the spec: the function classes (\<^verbatim>\<open>function.hpp\<close> is not among the sources).
  One-argument functions are \<open>Abs\<close> \<dots> \<open>Result\<close>, two-argument functions are
  \<open>Arctan2\<close>, \<open>Max\<close>, \<open>Min\<close>, \<open>Pow\<close>.
\<close>

datatype func =
    Abs | Sin | Cos | Tan | Arcsin | Arccos | Arctan | Sqrt | Ln | Lb | Log | Exp
  | Floor | Ceil | Result
  | Arctan2 | MaxT | MinT | PowT

text \<open>
  Modelled from the spec: the operand classes (\<^verbatim>\<open>operand.hpp\<close>, \<^verbatim>\<open>integer.hpp\<close>,
  \<^verbatim>\<open>real.hpp\<close>, \<^verbatim>\<open>boolean.hpp\<close>, \<^verbatim>\<open>variable.hpp\<close> are not among the sources).
  \<open>Integer\<close> carries an unbounded integer, \<open>Real\<close> a value of the host floating-point
  type \<open>'r\<close>, which stays a type parameter. \<open>Pi\<close> and \<open>E\<close> are real-valued operands,
  \<open>TrueT\<close> and \<open>FalseT\<close> boolean-valued ones. A \<open>Variable\<close> is a shared handle: the
  payload is the address of the variable object, whose slot lives in the store.
\<close>

datatype 'r operand =
    Integer int | Real 'r | Boolean bool | Variable nat | Pi | E | TrueT | FalseT

text \<open>
  Modelled from the spec: the pseudo-tokens \<open>LeftParenthesis\<close>, \<open>RightParenthesis\<close>,
  \<open>ArgumentSeparator\<close> (\<^verbatim>\<open>pseudo_operation.hpp\<close> is not among the sources) are tokens
  that are neither operands nor operations.
\<close>

datatype 'r token =
    Operand "'r operand"
  | Operator operator
  | Function func
  | LeftParenthesis | RightParenthesis | ArgumentSeparator

text \<open>Classification predicates: the \<^verbatim>\<open>is<Kind>(token)\<close> tests used by the three stages.\<close>

fun is_Operand :: "'r token \<Rightarrow> bool" where
  "is_Operand (Operand _) = True"
| "is_Operand _ = False"

fun is_Operator :: "'r token \<Rightarrow> bool" where
  "is_Operator (Operator _) = True"
| "is_Operator _ = False"

fun is_Function :: "'r token \<Rightarrow> bool" where
  "is_Function (Function _) = True"
| "is_Function _ = False"

text \<open>\<^verbatim>\<open>Operator\<close> derives from \<^verbatim>\<open>Operation\<close> (\<^verbatim>\<open>operator.hpp\<close>), and so does \<^verbatim>\<open>Function\<close>.\<close>

definition is_Operation :: "'r token \<Rightarrow> bool" where
  "is_Operation token = (is_Operator token \<or> is_Function token)"

definition is_PostfixOperator :: "'r token \<Rightarrow> bool" where
  "is_PostfixOperator token = (token = Operator Factorial)"

text \<open>\<^verbatim>\<open>class PostfixOperator : public UnaryOperator\<close>: a \<open>Factorial\<close> is a unary operator too.\<close>

definition is_UnaryOperator :: "'r token \<Rightarrow> bool" where
  "is_UnaryOperator token =
     (token = Operator Identity \<or> token = Operator Negation \<or> token = Operator NotT
      \<or> is_PostfixOperator token)"

definition is_BinaryOperator :: "'r token \<Rightarrow> bool" where
  "is_BinaryOperator token = (is_Operator token \<and> \<not> is_UnaryOperator token)"

definition is_TwoArgFunction :: "'r token \<Rightarrow> bool" where
  "is_TwoArgFunction token =
     (token = Function Arctan2 \<or> token = Function MaxT \<or> token = Function MinT
      \<or> token = Function PowT)"

definition is_OneArgFunction :: "'r token \<Rightarrow> bool" where
  "is_OneArgFunction token = (is_Function token \<and> \<not> is_TwoArgFunction token)"

definition is_pseudo :: "'r token \<Rightarrow> bool" where
  "is_pseudo token =
     (token = LeftParenthesis \<or> token = RightParenthesis \<or> token = ArgumentSeparator)"

section \<open>Errors\<close>

text \<open>
  Every exception the three stages can raise. \<open>XTokenizer expression location message\<close>
  and \<open>XBadCharacter expression location\<close> are the tokenizer's two exception classes;
  \<open>Runtime_error\<close> is \<^verbatim>\<open>std::runtime_error\<close> with its message, thrown by the parser and
  the evaluator; \<open>Bad_variant_access\<close> is what \<^verbatim>\<open>std::get\<close> throws on a variant holding
  another alternative. \<open>Integer_division_by_zero\<close> stands for the exception of the
  arbitrary-precision integer library on a zero divisor.
\<close>

datatype exn =
    XTokenizer string nat string
  | XBadCharacter string nat
  | Runtime_error string
  | Bad_variant_access
  | Integer_division_by_zero

section \<open>Parser: infix to postfix\<close>

text \<open>The two lambdas at the head of \<^verbatim>\<open>Parser::parse\<close>.\<close>

definition precedence :: "'r token \<Rightarrow> nat" where
  "precedence token =
     (if token = Operator Factorial then 15
      else if token = Operator Power then 14
      else if token = Operator Identity \<or> token = Operator Negation \<or> token = Operator NotT
        then 13
      else if token = Operator Multiplication \<or> token = Operator Division
              \<or> token = Operator Modulus then 12
      else if token = Operator Addition \<or> token = Operator Subtraction then 11
      else if token = Operator Less \<or> token = Operator LessEqual \<or> token = Operator Greater
              \<or> token = Operator GreaterEqual then 9
      else if token = Operator Equality \<or> token = Operator Inequality then 8
      else if token = Operator And \<or> token = Operator Nand then 6
      else if token = Operator Xor \<or> token = Operator Xnor then 5
      else if token = Operator Or \<or> token = Operator Nor then 4
      else if token = Operator Assignment then 1
      else 0)"

definition is_right_associative :: "'r token \<Rightarrow> bool" where
  "is_right_associative token = (token = Operator Power \<or> token = Operator Assignment)"

text \<open>
  The operator stack is a list whose head is the top; the output list grows at its end.
  \<open>pop_to_left_paren\<close> is the loop
  \<^verbatim>\<open>while (!opStack.empty() && !is<LeftParenthesis>(opStack.top()))\<close> shared by the
  argument-separator and the right-parenthesis branch.
\<close>

fun pop_to_left_paren ::
  "'r token list \<Rightarrow> 'r token list \<Rightarrow> 'r token list \<times> 'r token list" where
  "pop_to_left_paren [] output = ([], output)"
| "pop_to_left_paren (topTok # opStack) output =
     (if topTok = LeftParenthesis then (topTok # opStack, output)
      else pop_to_left_paren opStack (output @ [topTok]))"

text \<open>
  The test of the operator branch's loop on the stack top \<open>topTok\<close> and the incoming
  operator \<open>token\<close>.
\<close>

definition pops_before :: "'r token \<Rightarrow> 'r token \<Rightarrow> bool" where
  "pops_before topTok token =
     (let topPrec = precedence topTok; curPrec = precedence token
      in topPrec > curPrec \<or> (topPrec = curPrec \<and> \<not> is_right_associative token))"

text \<open>The loop \<^verbatim>\<open>while (!opStack.empty() && is<Operator>(opStack.top()))\<close> with its break.\<close>

fun pop_operators ::
  "'r token \<Rightarrow> 'r token list \<Rightarrow> 'r token list \<Rightarrow> 'r token list \<times> 'r token list" where
  "pop_operators token [] output = ([], output)"
| "pop_operators token (topTok # opStack) output =
     (if is_Operator topTok then
        (if pops_before topTok token then pop_operators token opStack (output @ [topTok])
         else (topTok # opStack, output))
      else (topTok # opStack, output))"

text \<open>The final loop that empties the operator stack.\<close>

fun drain :: "'r token list \<Rightarrow> 'r token list \<Rightarrow> exn + 'r token list" where
  "drain [] output = Inr output"
| "drain (topTok # opStack) output =
     (if topTok = LeftParenthesis then Inl (Runtime_error ''Missing right-parenthesis'')
      else drain opStack (output @ [topTok]))"

text \<open>The main loop over the infix tokens, carrying the operator stack and the output.\<close>

fun parse_loop :: "'r token list \<Rightarrow> 'r token list \<Rightarrow> 'r token list \<Rightarrow> exn + 'r token list" where
  "parse_loop [] opStack output = drain opStack output"
| "parse_loop (token # rest) opStack output =
     (if is_Operand token then parse_loop rest opStack (output @ [token])
      else if is_Function token then parse_loop rest (token # opStack) output
      else if token = ArgumentSeparator then
        (case pop_to_left_paren opStack output of
           (opStack', output') \<Rightarrow> parse_loop rest opStack' output')
      else if token = LeftParenthesis then parse_loop rest (token # opStack) output
      else if token = RightParenthesis then
        (case pop_to_left_paren opStack output of
           ([], output') \<Rightarrow>
             Inl (Runtime_error ''Right parenthesis has no matching left parenthesis'')
         | (paren # [], output') \<Rightarrow> parse_loop rest [] output'
         | (paren # topTok # opStack', output') \<Rightarrow>
             (if is_Function topTok then parse_loop rest opStack' (output' @ [topTok])
              else parse_loop rest (topTok # opStack') output'))
      else if is_Operator token then
        (case pop_operators token opStack output of
           (opStack', output') \<Rightarrow> parse_loop rest (token # opStack') output')
      else parse_loop rest opStack output)"

definition parse :: "'r token list \<Rightarrow> exn + 'r token list" where
  "parse infixTokens = parse_loop infixTokens [] []"

text \<open>
  What the operator stack holds at any time: operators, functions and left parentheses,
  never a right parenthesis or an argument separator.
\<close>

definition stack_token :: "'r token \<Rightarrow> bool" where
  "stack_token t = (t \<noteq> RightParenthesis \<and> t \<noteq> ArgumentSeparator)"

section \<open>Evaluator: values and the host's floating point\<close>

text \<open>
  \<^verbatim>\<open>Real::value_type\<close> is declared in \<^verbatim>\<open>real.hpp\<close>, which is not among the sources, so
  the floating-point type is the parameter \<open>'r\<close> and its operations are the fields of
  \<open>real_ops\<close>: the construction from a digit string, from an integer and from a
  \<^verbatim>\<open>bool\<close>, the values of \<open>Pi\<close> and \<open>E\<close>, unary minus, the binary arithmetic of
  \<open>Addition\<close>, \<open>Subtraction\<close>, \<open>Multiplication\<close>, \<open>Division\<close> and \<open>Power\<close> (\<^verbatim>\<open>pow\<close>),
  the six comparisons, and the library functions behind the function tokens.
\<close>

record 'r real_ops =
  real_of_digits :: "string \<Rightarrow> 'r"
  real_of_integer :: "int \<Rightarrow> 'r"
  real_of_bool :: "bool \<Rightarrow> 'r"
  real_pi :: 'r
  real_e :: 'r
  real_negate :: "'r \<Rightarrow> 'r"
  real_arith :: "operator \<Rightarrow> 'r \<Rightarrow> 'r \<Rightarrow> 'r"
  real_compare :: "operator \<Rightarrow> 'r \<Rightarrow> 'r \<Rightarrow> bool"
  real_fun1 :: "func \<Rightarrow> 'r \<Rightarrow> 'r"
  real_fun2 :: "func \<Rightarrow> 'r \<Rightarrow> 'r \<Rightarrow> 'r"

text \<open>\<^verbatim>\<open>using Value = std::variant<Integer::value_type, Real::value_type, bool>\<close>\<close>

datatype 'r Value = Integer_value int | Real_value 'r | Bool_value bool

text \<open>
  The store maps the address of a variable object to its slot. A slot is empty or holds
  the operand stored by \<^verbatim>\<open>var->set(make_operand_from_value(rhs))\<close>, the only call of
  \<^verbatim>\<open>set\<close>: an \<open>Integer\<close>, \<open>Real\<close> or \<open>Boolean\<close> operand, kept here as its \<open>Value\<close>.
\<close>

type_synonym 'r store = "nat \<Rightarrow> 'r Value option"

definition bind_exn :: "exn + 'a \<Rightarrow> ('a \<Rightarrow> exn + 'b) \<Rightarrow> exn + 'b" where
  "bind_exn m f = (case m of Inl e \<Rightarrow> Inl e | Inr x \<Rightarrow> f x)"

text \<open>The lambda \<^verbatim>\<open>to_value\<close>; a variable's stored operand is dereferenced in one step.\<close>

definition to_value :: "'r real_ops \<Rightarrow> 'r store \<Rightarrow> 'r operand \<Rightarrow> exn + 'r Value" where
  "to_value F slots operand =
     (case operand of
        Integer i \<Rightarrow> Inr (Integer_value i)
      | Real r \<Rightarrow> Inr (Real_value r)
      | Pi \<Rightarrow> Inr (Real_value (real_pi F))
      | E \<Rightarrow> Inr (Real_value (real_e F))
      | Boolean b \<Rightarrow> Inr (Bool_value b)
      | TrueT \<Rightarrow> Inr (Bool_value True)
      | FalseT \<Rightarrow> Inr (Bool_value False)
      | Variable var \<Rightarrow>
          (case slots var of
             None \<Rightarrow> Inl (Runtime_error ''Error: variable not initialized'')
           | Some v \<Rightarrow> Inr v))"

definition make_operand_from_value :: "'r Value \<Rightarrow> 'r operand" where
  "make_operand_from_value v =
     (case v of Integer_value i \<Rightarrow> Integer i | Real_value r \<Rightarrow> Real r
      | Bool_value b \<Rightarrow> Boolean b)"

definition holds_Real :: "'r Value \<Rightarrow> bool" where
  "holds_Real v = (case v of Real_value _ \<Rightarrow> True | _ \<Rightarrow> False)"

definition holds_Integer :: "'r Value \<Rightarrow> bool" where
  "holds_Integer v = (case v of Integer_value _ \<Rightarrow> True | _ \<Rightarrow> False)"

text \<open>\<^verbatim>\<open>std::get<T>(v)\<close> throws \<^verbatim>\<open>std::bad_variant_access\<close> when \<open>v\<close> holds another type.\<close>

definition get_Integer :: "'r Value \<Rightarrow> exn + int" where
  "get_Integer v = (case v of Integer_value i \<Rightarrow> Inr i | _ \<Rightarrow> Inl Bad_variant_access)"

definition get_Real :: "'r Value \<Rightarrow> exn + 'r" where
  "get_Real v = (case v of Real_value r \<Rightarrow> Inr r | _ \<Rightarrow> Inl Bad_variant_access)"

definition get_bool :: "'r Value \<Rightarrow> exn + bool" where
  "get_bool v = (case v of Bool_value b \<Rightarrow> Inr b | _ \<Rightarrow> Inl Bad_variant_access)"

text \<open>The lambda \<^verbatim>\<open>promote\<close> with its inner \<^verbatim>\<open>to_real\<close>.\<close>

definition to_real :: "'r real_ops \<Rightarrow> 'r Value \<Rightarrow> 'r" where
  "to_real F v =
     (case v of Real_value r \<Rightarrow> r | Integer_value i \<Rightarrow> real_of_integer F i
      | Bool_value b \<Rightarrow> real_of_bool F b)"

definition promote :: "'r real_ops \<Rightarrow> 'r Value \<Rightarrow> 'r Value \<Rightarrow> 'r Value \<times> 'r Value" where
  "promote F lhs rhs =
     (if holds_Real lhs \<or> holds_Real rhs
      then (Real_value (to_real F lhs), Real_value (to_real F rhs))
      else (lhs, rhs))"

text \<open>
  Modelled from the spec: \<^verbatim>\<open>/\<close> and \<^verbatim>\<open>%\<close> of \<^verbatim>\<open>Integer::value_type\<close> (\<^verbatim>\<open>integer.hpp\<close> is
  not among the sources). The quotient truncates toward zero and the remainder follows
  the same convention. The spec leaves a zero divisor open; here it raises, as an
  unbounded integer has no value to return.
\<close>

definition integer_div :: "int \<Rightarrow> int \<Rightarrow> exn + int" where
  "integer_div a b =
     (if b = 0 then Inl Integer_division_by_zero
      else Inr (sgn a * sgn b * (\<bar>a\<bar> div \<bar>b\<bar>)))"

definition integer_mod :: "int \<Rightarrow> int \<Rightarrow> exn + int" where
  "integer_mod a b =
     (if b = 0 then Inl Integer_division_by_zero
      else Inr (sgn a * (\<bar>a\<bar> mod \<bar>b\<bar>)))"

text \<open>
  \<^verbatim>\<open>for (Integer::value_type i = 1; i <= ival; ++i) result *= i;\<close>
  with the loop variable, the bound and the running product as arguments.
\<close>

function factorial_loop :: "int \<Rightarrow> int \<Rightarrow> int \<Rightarrow> int" where
  "factorial_loop i ival result =
     (if i \<le> ival then factorial_loop (i + 1) ival (result * i) else result)"
  by pat_completeness auto
termination
  by (relation "measure (\<lambda>(i, ival, result). nat (ival + 1 - i))") auto

text \<open>
  \<^verbatim>\<open>for (Integer::value_type i = 0; i < exp; ++i) result *= base;\<close>
  (the source's \<^verbatim>\<open>exp\<close> is \<open>exponent\<close> here).
\<close>

function power_loop :: "int \<Rightarrow> int \<Rightarrow> int \<Rightarrow> int \<Rightarrow> int" where
  "power_loop i exponent base result =
     (if i < exponent then power_loop (i + 1) exponent base (result * base) else result)"
  by pat_completeness auto
termination
  by (relation "measure (\<lambda>(i, exponent, base, result). nat (exponent - i))") auto

section \<open>Evaluator: one token\<close>

text \<open>
  Reading both promoted operands with \<^verbatim>\<open>std::get<T>\<close>, as every arithmetic and relational
  branch does, and then continuing with the two payloads.
\<close>

definition get_Reals :: "'r Value \<Rightarrow> 'r Value \<Rightarrow> ('r \<Rightarrow> 'r \<Rightarrow> exn + 'a) \<Rightarrow> exn + 'a" where
  "get_Reals lProm rProm k =
     bind_exn (get_Real lProm) (\<lambda>l. bind_exn (get_Real rProm) (\<lambda>r. k l r))"

definition get_Integers :: "'r Value \<Rightarrow> 'r Value \<Rightarrow> (int \<Rightarrow> int \<Rightarrow> exn + 'a) \<Rightarrow> exn + 'a" where
  "get_Integers lProm rProm k =
     bind_exn (get_Integer lProm) (\<lambda>l. bind_exn (get_Integer rProm) (\<lambda>r. k l r))"

definition get_bools :: "'r Value \<Rightarrow> 'r Value \<Rightarrow> (bool \<Rightarrow> bool \<Rightarrow> exn + 'a) \<Rightarrow> exn + 'a" where
  "get_bools lhs rhs k =
     bind_exn (get_bool lhs) (\<lambda>l. bind_exn (get_bool rhs) (\<lambda>r. k l r))"

text \<open>
  The shape shared by \<open>Addition\<close>, \<open>Subtraction\<close>, \<open>Multiplication\<close> and \<open>Division\<close>:
  real arithmetic when the promoted left operand holds a real, integer arithmetic
  otherwise. The result is the operand stack after \<^verbatim>\<open>make_real\<close> or \<^verbatim>\<open>make_int\<close>.
\<close>

definition arithmetic ::
  "'r real_ops \<Rightarrow> operator \<Rightarrow> (int \<Rightarrow> int \<Rightarrow> exn + int) \<Rightarrow> 'r Value \<Rightarrow> 'r Value
     \<Rightarrow> 'r operand list \<Rightarrow> exn + 'r operand list" where
  "arithmetic F op int_op lProm rProm stack =
     (if holds_Real lProm
      then get_Reals lProm rProm (\<lambda>l r. Inr (Real (real_arith F op l r) # stack))
      else get_Integers lProm rProm
             (\<lambda>l r. bind_exn (int_op l r) (\<lambda>i. Inr (Integer i # stack))))"

text \<open>The shape shared by \<open>Less\<close>, \<open>LessEqual\<close>, \<open>Greater\<close> and \<open>GreaterEqual\<close>.\<close>

definition relational ::
  "'r real_ops \<Rightarrow> operator \<Rightarrow> (int \<Rightarrow> int \<Rightarrow> bool) \<Rightarrow> 'r Value \<Rightarrow> 'r Value
     \<Rightarrow> 'r operand list \<Rightarrow> exn + 'r operand list" where
  "relational F op int_rel lProm rProm stack =
     (if holds_Real lProm
      then get_Reals lProm rProm (\<lambda>l r. Inr (Boolean (real_compare F op l r) # stack))
      else get_Integers lProm rProm (\<lambda>l r. Inr (Boolean (int_rel l r) # stack)))"

text \<open>
  \<^verbatim>\<open>lProm == rProm\<close> and \<^verbatim>\<open>lProm != rProm\<close> on \<^verbatim>\<open>std::variant\<close>: variants holding different
  alternatives are unequal, variants holding the same alternative compare their payloads.
\<close>

definition variant_eq :: "'r real_ops \<Rightarrow> 'r Value \<Rightarrow> 'r Value \<Rightarrow> bool" where
  "variant_eq F v w =
     (case v of
        Integer_value a \<Rightarrow> (case w of Integer_value b \<Rightarrow> a = b | _ \<Rightarrow> False)
      | Real_value a \<Rightarrow> (case w of Real_value b \<Rightarrow> real_compare F Equality a b | _ \<Rightarrow> False)
      | Bool_value a \<Rightarrow> (case w of Bool_value b \<Rightarrow> a = b | _ \<Rightarrow> False))"

definition variant_ne :: "'r real_ops \<Rightarrow> 'r Value \<Rightarrow> 'r Value \<Rightarrow> bool" where
  "variant_ne F v w =
     (case v of
        Integer_value a \<Rightarrow> (case w of Integer_value b \<Rightarrow> a \<noteq> b | _ \<Rightarrow> True)
      | Real_value a \<Rightarrow> (case w of Real_value b \<Rightarrow> real_compare F Inequality a b | _ \<Rightarrow> True)
      | Bool_value a \<Rightarrow> (case w of Bool_value b \<Rightarrow> a \<noteq> b | _ \<Rightarrow> True))"

text \<open>
  The binary operators other than \<open>Assignment\<close>, in the order of the source's chain of
  tests. \<open>lhs\<close> and \<open>rhs\<close> are the dereferenced values of the two popped operands,
  \<open>stack\<close> is the stack below them; the result is the stack after the push. The boolean
  operators read \<open>lhs\<close> and \<open>rhs\<close>, not the promoted pair; \<^verbatim>\<open>&&\<close> and \<^verbatim>\<open>||\<close> read their
  right operand only when the left one does not decide. A token matching no test leaves
  the stack without a push.
\<close>

definition binary_operation ::
  "'r real_ops \<Rightarrow> 'r token \<Rightarrow> 'r Value \<Rightarrow> 'r Value \<Rightarrow> 'r operand list
     \<Rightarrow> exn + 'r operand list" where
  "binary_operation F token lhs rhs stack =
     (case promote F lhs rhs of (lProm, rProm) \<Rightarrow>
        if token = Operator Addition then
          arithmetic F Addition (\<lambda>l r. Inr (l + r)) lProm rProm stack
        else if token = Operator Subtraction then
          arithmetic F Subtraction (\<lambda>l r. Inr (l - r)) lProm rProm stack
        else if token = Operator Multiplication then
          arithmetic F Multiplication (\<lambda>l r. Inr (l * r)) lProm rProm stack
        else if token = Operator Division then
          arithmetic F Division integer_div lProm rProm stack
        else if token = Operator Modulus then
          get_Integers lProm rProm
            (\<lambda>l r. bind_exn (integer_mod l r) (\<lambda>i. Inr (Integer i # stack)))
        else if token = Operator Power then
          arithmetic F Power (\<lambda>base exponent. Inr (power_loop 0 exponent base 1))
            lProm rProm stack
        else if token = Operator Equality then
          Inr (Boolean (variant_eq F lProm rProm) # stack)
        else if token = Operator Inequality then
          Inr (Boolean (variant_ne F lProm rProm) # stack)
        else if token = Operator Less then
          relational F Less (\<lambda>l r. l < r) lProm rProm stack
        else if token = Operator LessEqual then
          relational F LessEqual (\<lambda>l r. l \<le> r) lProm rProm stack
        else if token = Operator Greater then
          relational F Greater (\<lambda>l r. l > r) lProm rProm stack
        else if token = Operator GreaterEqual then
          relational F GreaterEqual (\<lambda>l r. l \<ge> r) lProm rProm stack
        else if token = Operator And then
          bind_exn (get_bool lhs) (\<lambda>l.
            if l then bind_exn (get_bool rhs) (\<lambda>r. Inr (Boolean r # stack))
            else Inr (Boolean False # stack))
        else if token = Operator Or then
          bind_exn (get_bool lhs) (\<lambda>l.
            if l then Inr (Boolean True # stack)
            else bind_exn (get_bool rhs) (\<lambda>r. Inr (Boolean r # stack)))
        else if token = Operator Xor then
          get_bools lhs rhs (\<lambda>l r. Inr (Boolean (l \<noteq> r) # stack))
        else if token = Operator Nand then
          bind_exn (get_bool lhs) (\<lambda>l.
            if l then bind_exn (get_bool rhs) (\<lambda>r. Inr (Boolean (\<not> r) # stack))
            else Inr (Boolean True # stack))
        else if token = Operator Nor then
          bind_exn (get_bool lhs) (\<lambda>l.
            if l then Inr (Boolean False # stack)
            else bind_exn (get_bool rhs) (\<lambda>r. Inr (Boolean (\<not> r) # stack)))
        else if token = Operator Xnor then
          get_bools lhs rhs (\<lambda>l r. Inr (Boolean (l = r) # stack))
        else Inr stack)"

text \<open>The branch \<^verbatim>\<open>if (is<PostfixOperator>(token))\<close>. The head of the stack list is its back.\<close>

definition evaluate_postfix ::
  "'r real_ops \<Rightarrow> 'r store \<Rightarrow> 'r operand list \<Rightarrow> exn + 'r store \<times> 'r operand list" where
  "evaluate_postfix F slots stack =
     (case stack of
        [] \<Rightarrow> Inl (Runtime_error ''Error: insufficient operands'')
      | operand # stack' \<Rightarrow>
          bind_exn (to_value F slots operand) (\<lambda>val.
            if \<not> holds_Integer val then Inl (Runtime_error ''Error: unsupported operand'')
            else bind_exn (get_Integer val) (\<lambda>ival.
              if ival < 0 then Inl (Runtime_error ''Error: unsupported operand'')
              else Inr (slots, Integer (factorial_loop 1 ival 1) # stack'))))"

text \<open>
  The branch \<^verbatim>\<open>if (is<UnaryOperator>(token))\<close>, reached by \<open>Identity\<close>, \<open>Negation\<close> and
  \<open>Not\<close>. The operand is dereferenced before the operator is looked at.
\<close>

definition evaluate_unary ::
  "'r real_ops \<Rightarrow> 'r store \<Rightarrow> 'r operand list \<Rightarrow> 'r token
     \<Rightarrow> exn + 'r store \<times> 'r operand list" where
  "evaluate_unary F slots stack token =
     (case stack of
        [] \<Rightarrow> Inl (Runtime_error ''Error: insufficient operands'')
      | operand # stack' \<Rightarrow>
          bind_exn (to_value F slots operand) (\<lambda>val.
            if token = Operator Identity then Inr (slots, operand # stack')
            else if token = Operator Negation then
              (if holds_Real val then
                 bind_exn (get_Real val) (\<lambda>r. Inr (slots, Real (real_negate F r) # stack'))
               else if holds_Integer val then
                 bind_exn (get_Integer val) (\<lambda>i. Inr (slots, Integer (- i) # stack'))
               else Inl (Runtime_error ''Error: unsupported operand''))
            else if token = Operator NotT then
              (case val of
                 Bool_value b \<Rightarrow> Inr (slots, Boolean (\<not> b) # stack')
               | _ \<Rightarrow> Inl (Runtime_error ''Error: unsupported operand''))
            else Inr (slots, stack')))"

text \<open>
  The branch \<^verbatim>\<open>if (is<BinaryOperator>(token))\<close>: both operands are popped and dereferenced,
  the right one first, before the test for \<open>Assignment\<close>.
\<close>

definition evaluate_binary ::
  "'r real_ops \<Rightarrow> 'r store \<Rightarrow> 'r operand list \<Rightarrow> 'r token
     \<Rightarrow> exn + 'r store \<times> 'r operand list" where
  "evaluate_binary F slots stack token =
     (case stack of
        rhsOp # lhsOp # stack' \<Rightarrow>
          bind_exn (to_value F slots rhsOp) (\<lambda>rhs.
          bind_exn (to_value F slots lhsOp) (\<lambda>lhs.
            if token = Operator Assignment then
              (case lhsOp of
                 Variable var \<Rightarrow> Inr (slots(var \<mapsto> rhs), Variable var # stack')
               | _ \<Rightarrow> Inl (Runtime_error ''Error: assignment to a non-variable.''))
            else bind_exn (binary_operation F token lhs rhs stack')
                   (\<lambda>stack''. Inr (slots, stack''))))
      | _ \<Rightarrow> Inl (Runtime_error ''Error: insufficient operands''))"

text \<open>The lambda \<^verbatim>\<open>get_real\<close> of the two function branches.\<close>

definition get_real :: "'r real_ops \<Rightarrow> 'r Value \<Rightarrow> exn + 'r" where
  "get_real F val =
     (if holds_Real val then get_Real val
      else bind_exn (get_Integer val) (\<lambda>i. Inr (real_of_integer F i)))"

definition evaluate_one_arg ::
  "'r real_ops \<Rightarrow> 'r store \<Rightarrow> 'r operand list \<Rightarrow> 'r token
     \<Rightarrow> exn + 'r store \<times> 'r operand list" where
  "evaluate_one_arg F slots stack token =
     (case stack of
        [] \<Rightarrow> Inl (Runtime_error ''Error: insufficient operands'')
      | arg # stack' \<Rightarrow>
          bind_exn (to_value F slots arg) (\<lambda>v.
            if token = Function Abs then
              (if holds_Real v then
                 bind_exn (get_Real v) (\<lambda>r. Inr (slots, Real (real_fun1 F Abs r) # stack'))
               else bind_exn (get_Integer v) (\<lambda>i. Inr (slots, Integer \<bar>i\<bar> # stack')))
            else if token = Function Result then
              Inl (Runtime_error ''Error: unsupported operand'')
            else (case token of
                    Function f \<Rightarrow>
                      bind_exn (get_real F v)
                        (\<lambda>r. Inr (slots, Real (real_fun1 F f r) # stack'))
                  | _ \<Rightarrow> Inr (slots, stack'))))"

definition evaluate_two_arg ::
  "'r real_ops \<Rightarrow> 'r store \<Rightarrow> 'r operand list \<Rightarrow> 'r token
     \<Rightarrow> exn + 'r store \<times> 'r operand list" where
  "evaluate_two_arg F slots stack token =
     (case stack of
        rhsOp # lhsOp # stack' \<Rightarrow>
          bind_exn (to_value F slots rhsOp) (\<lambda>rhs.
          bind_exn (to_value F slots lhsOp) (\<lambda>lhs.
            (case token of
               Function f \<Rightarrow>
                 bind_exn (get_real F lhs) (\<lambda>l.
                 bind_exn (get_real F rhs) (\<lambda>r.
                   Inr (slots, Real (real_fun2 F f l r) # stack')))
             | _ \<Rightarrow> Inr (slots, stack'))))
      | _ \<Rightarrow> Inl (Runtime_error ''Error: insufficient operands''))"

text \<open>The body of the \<^verbatim>\<open>for\<close> loop of \<^verbatim>\<open>RPNEvaluator::evaluate\<close> for one token.\<close>

definition evaluate_token ::
  "'r real_ops \<Rightarrow> 'r store \<Rightarrow> 'r operand list \<Rightarrow> 'r token
     \<Rightarrow> exn + 'r store \<times> 'r operand list" where
  "evaluate_token F slots stack token =
     (case token of
        Operand operand \<Rightarrow> Inr (slots, operand # stack)
      | _ \<Rightarrow>
          if \<not> is_Operation token then Inr (slots, stack)
          else if is_PostfixOperator token then evaluate_postfix F slots stack
          else if is_UnaryOperator token then evaluate_unary F slots stack token
          else if is_BinaryOperator token then evaluate_binary F slots stack token
          else if is_Function token then
            (if is_OneArgFunction token then evaluate_one_arg F slots stack token
             else if is_TwoArgFunction token then evaluate_two_arg F slots stack token
             else Inr (slots, stack))
          else Inr (slots, stack))"

section \<open>Evaluator: the whole expression\<close>

text \<open>
  The loop over the postfix expression and the final test of the stack. An exception
  leaves the store as the tokens before it have made it.
\<close>

fun evaluate_loop ::
  "'r real_ops \<Rightarrow> 'r store \<Rightarrow> 'r operand list \<Rightarrow> 'r token list
     \<Rightarrow> 'r store \<times> (exn + 'r operand)" where
  "evaluate_loop F slots stack [] =
     (slots,
      case stack of
        [] \<Rightarrow> Inl (Runtime_error ''Error: insufficient operands'')
      | [operand] \<Rightarrow> Inr operand
      | _ \<Rightarrow> Inl (Runtime_error ''Error: too many operands''))"
| "evaluate_loop F slots stack (token # rest) =
     (case evaluate_token F slots stack token of
        Inl e \<Rightarrow> (slots, Inl e)
      | Inr (slots', stack') \<Rightarrow> evaluate_loop F slots' stack' rest)"

definition evaluate ::
  "'r real_ops \<Rightarrow> 'r store \<Rightarrow> 'r token list \<Rightarrow> 'r store \<times> (exn + 'r operand)" where
  "evaluate F slots rpnExpression = evaluate_loop F slots [] rpnExpression"

section \<open>Tokenizer\<close>

text \<open>
  The character classes of \<^verbatim>\<open><cctype>\<close> in the \<open>C\<close> locale, on the code of the character.
\<close>

definition isspace :: "char \<Rightarrow> bool" where
  "isspace c = (let n = (of_char c :: nat) in n = 32 \<or> (9 \<le> n \<and> n \<le> 13))"

definition isdigit :: "char \<Rightarrow> bool" where
  "isdigit c = (let n = (of_char c :: nat) in 48 \<le> n \<and> n \<le> 57)"

definition isalpha :: "char \<Rightarrow> bool" where
  "isalpha c = (let n = (of_char c :: nat) in (65 \<le> n \<and> n \<le> 90) \<or> (97 \<le> n \<and> n \<le> 122))"

definition isalnum :: "char \<Rightarrow> bool" where
  "isalnum c = (isalpha c \<or> isdigit c)"

text \<open>
  The tokenizer's state: the dictionary \<^verbatim>\<open>variables_m\<close> from identifiers to the variable
  objects it owns, and the memory holding the slots of those objects. The address of a
  new variable object is the number of objects made so far.
\<close>

record 'r tokenizer =
  variables_m :: "(string \<times> nat) list"
  memory :: "'r store"

text \<open>
  The dictionary \<^verbatim>\<open>keywords_m\<close> as the constructor fills it: every keyword in lower case,
  capitalised and in upper case (\<open>e\<close> in two spellings only).
\<close>

definition keywords_m :: "(string \<times> 'r token) list" where
  "keywords_m =
     [
      (''abs'', Function Abs), (''Abs'', Function Abs), (''ABS'', Function Abs),
      (''and'', Operator And), (''And'', Operator And), (''AND'', Operator And),
      (''arccos'', Function Arccos), (''Arccos'', Function Arccos), (''ARCCOS'', Function Arccos),
      (''arcsin'', Function Arcsin), (''Arcsin'', Function Arcsin), (''ARCSIN'', Function Arcsin),
      (''arctan'', Function Arctan), (''Arctan'', Function Arctan), (''ARCTAN'', Function Arctan),
      (''arctan2'', Function Arctan2), (''Arctan2'', Function Arctan2), (''ARCTAN2'', Function Arctan2),
      (''ceil'', Function Ceil), (''Ceil'', Function Ceil), (''CEIL'', Function Ceil),
      (''cos'', Function Cos), (''Cos'', Function Cos), (''COS'', Function Cos),
      (''e'', Operand E), (''E'', Operand E),
      (''exp'', Function Exp), (''Exp'', Function Exp), (''EXP'', Function Exp),
      (''false'', Operand FalseT), (''False'', Operand FalseT), (''FALSE'', Operand FalseT),
      (''floor'', Function Floor), (''Floor'', Function Floor), (''FLOOR'', Function Floor),
      (''lb'', Function Lb), (''Lb'', Function Lb), (''LB'', Function Lb),
      (''ln'', Function Ln), (''Ln'', Function Ln), (''LN'', Function Ln),
      (''log'', Function Log), (''Log'', Function Log), (''LOG'', Function Log),
      (''max'', Function MaxT), (''Max'', Function MaxT), (''MAX'', Function MaxT),
      (''min'', Function MinT), (''Min'', Function MinT), (''MIN'', Function MinT),
      (''mod'', Operator Modulus), (''Mod'', Operator Modulus), (''MOD'', Operator Modulus),
      (''nand'', Operator Nand), (''Nand'', Operator Nand), (''NAND'', Operator Nand),
      (''nor'', Operator Nor), (''Nor'', Operator Nor), (''NOR'', Operator Nor),
      (''not'', Operator NotT), (''Not'', Operator NotT), (''NOT'', Operator NotT),
      (''or'', Operator Or), (''Or'', Operator Or), (''OR'', Operator Or),
      (''pi'', Operand Pi), (''Pi'', Operand Pi), (''PI'', Operand Pi),
      (''pow'', Function PowT), (''Pow'', Function PowT), (''POW'', Function PowT),
      (''result'', Function Result), (''Result'', Function Result), (''RESULT'', Function Result),
      (''sin'', Function Sin), (''Sin'', Function Sin), (''SIN'', Function Sin),
      (''sqrt'', Function Sqrt), (''Sqrt'', Function Sqrt), (''SQRT'', Function Sqrt),
      (''tan'', Function Tan), (''Tan'', Function Tan), (''TAN'', Function Tan),
      (''true'', Operand TrueT), (''True'', Operand TrueT), (''TRUE'', Operand TrueT),
      (''xnor'', Operator Xnor), (''Xnor'', Operator Xnor), (''XNOR'', Operator Xnor),
      (''xor'', Operator Xor), (''Xor'', Operator Xor), (''XOR'', Operator Xor)
     ]"

text \<open>The tokenizer of a fresh \<^verbatim>\<open>Tokenizer\<close> object: no variables yet.\<close>

definition new_tokenizer :: "'r tokenizer" where
  "new_tokenizer = \<lparr>variables_m = [], memory = (\<lambda>var. None)\<rparr>"

text \<open>
  Modelled from the spec: the construction of \<^verbatim>\<open>Integer::value_type\<close> from a string of
  decimal digits (\<^verbatim>\<open>integer.hpp\<close> is not among the sources).
\<close>

definition digit_value :: "char \<Rightarrow> int" where
  "digit_value c = int (of_char c) - 48"

definition integer_of_digits :: "string \<Rightarrow> int" where
  "integer_of_digits digits = foldl (\<lambda>v c. 10 * v + digit_value c) 0 digits"

text \<open>
  A loop \<^verbatim>\<open>while (currentChar != end(expression) && P(*currentChar)) ++currentChar\<close> started
  at offset \<open>p\<close> consumes the characters \<open>scan P expression p\<close>.
\<close>

definition scan :: "(char \<Rightarrow> bool) \<Rightarrow> string \<Rightarrow> nat \<Rightarrow> string" where
  "scan P expression p = takeWhile P (drop p expression)"

text \<open>
  \<^verbatim>\<open>Tokenizer::_get_identifier\<close>: returns the tokenizer, the token and the new offset.
  \<^verbatim>\<open>make<Variable>()\<close> is a new object with an empty slot.
\<close>

definition get_identifier ::
  "'r tokenizer \<Rightarrow> string \<Rightarrow> nat \<Rightarrow> 'r tokenizer \<times> 'r token \<times> nat" where
  "get_identifier T expression p =
     (let ident = expression ! p # scan isalnum expression (p + 1);
          p' = p + length ident
      in case map_of keywords_m ident of
           Some token \<Rightarrow> (T, token, p')
         | None \<Rightarrow>
             (case map_of (variables_m T) ident of
                Some var \<Rightarrow> (T, Operand (Variable var), p')
              | None \<Rightarrow>
                  (let var = length (variables_m T)
                   in (T\<lparr>variables_m := variables_m T @ [(ident, var)],
                         memory := (memory T)(var := None)\<rparr>,
                       Operand (Variable var), p'))))"

text \<open>\<^verbatim>\<open>Tokenizer::_get_number\<close>: the token and the new offset, or the exception.\<close>

definition get_number :: "'r real_ops \<Rightarrow> string \<Rightarrow> nat \<Rightarrow> exn + 'r token \<times> nat" where
  "get_number F expression p =
     (let digits = expression ! p # scan isdigit expression (p + 1);
          p1 = p + length digits
      in if p1 \<ge> length expression
            \<or> (\<not> isdigit (expression ! p1) \<and> expression ! p1 \<noteq> CHR ''.'')
         then Inr (Operand (Integer (integer_of_digits digits)), p1)
         else
           (let digits' = digits @ [expression ! p1];
                p2 = p1 + 1
            in if p2 \<ge> length expression \<or> \<not> isdigit (expression ! p2)
               then Inl (XTokenizer expression p2 ''Tokenizer::Bad character in expression.'')
               else
                 (let fraction = scan isdigit expression p2
                  in Inr (Operand (Real (real_of_digits F (digits' @ fraction))),
                          p2 + length fraction))))"

text \<open>The binary literal \<^verbatim>\<open>0b...\<close>, entered at the offset \<open>p\<close> just after the \<open>b\<close>.\<close>

definition is_bit :: "char \<Rightarrow> bool" where
  "is_bit c = (c = CHR ''0'' \<or> c = CHR ''1'')"

definition get_binary :: "string \<Rightarrow> nat \<Rightarrow> exn + 'r token \<times> nat" where
  "get_binary expression p =
     (if p \<ge> length expression \<or> \<not> is_bit (expression ! p)
      then Inl (XTokenizer expression p ''Tokenizer::Bad character in expression.'')
      else
        (let bits = scan is_bit expression p
         in Inr (Operand (Integer
                   (foldl (\<lambda>v c. if c = CHR ''1'' then 2 * v + 1 else 2 * v) 0 bits)),
                 p + length bits)))"

text \<open>The local enumeration \<^verbatim>\<open>PrevCategory\<close> and the lambda \<^verbatim>\<open>classify_prev\<close>.\<close>

datatype PrevCategory =
  Prev_Start | Prev_Operand | Prev_RightParenthesis | Prev_PostfixOp | Prev_Function
  | Prev_Other

definition classify_prev :: "'r token option \<Rightarrow> PrevCategory" where
  "classify_prev t =
     (case t of
        None \<Rightarrow> Prev_Start
      | Some token \<Rightarrow>
          if is_Operand token then Prev_Operand
          else if token = RightParenthesis then Prev_RightParenthesis
          else if is_PostfixOperator token then Prev_PostfixOp
          else if is_Function token then Prev_Function
          else Prev_Other)"

text \<open>
  The test \<^verbatim>\<open>prev == Operand || prev == PostfixOp || prev == RightParenthesis\<close> of the
  branches for \<open>!\<close>, \<open>+\<close> and \<open>-\<close>.
\<close>

definition follows_expression :: "PrevCategory \<Rightarrow> bool" where
  "follows_expression prev =
     (prev = Prev_Operand \<or> prev = Prev_PostfixOp \<or> prev = Prev_RightParenthesis)"

text \<open>The operators of the \<^verbatim>\<open>CHECK_2OP\<close> and \<^verbatim>\<open>CHECK_OP\<close> lines, in their order.\<close>

definition two_char_ops :: "(char \<times> char \<times> 'r token) list" where
  "two_char_ops =
     [(CHR ''<'', CHR ''='', Operator LessEqual),
      (CHR ''>'', CHR ''='', Operator GreaterEqual),
      (CHR ''='', CHR ''='', Operator Equality),
      (CHR ''!'', CHR ''='', Operator Inequality),
      (CHR ''*'', CHR ''*'', Operator Power)]"

definition one_char_ops :: "(char \<times> 'r token) list" where
  "one_char_ops =
     [(CHR ''*'', Operator Multiplication),
      (CHR ''/'', Operator Division),
      (CHR ''%'', Operator Modulus),
      (CHR ''('', LeftParenthesis),
      (CHR '')'', RightParenthesis),
      (CHR '','', ArgumentSeparator),
      (CHR ''<'', Operator Less),
      (CHR ''>'', Operator Greater)]"

text \<open>
  The variables of the loop in \<^verbatim>\<open>Tokenizer::tokenize\<close>: the offset of \<^verbatim>\<open>currentChar\<close>, the
  previous category, the tokens emitted so far, and the tokenizer object.
\<close>

record 'r loop_state =
  currentChar :: nat
  prev :: PrevCategory
  tokenizedExpression :: "'r token list"
  tokenizer_of :: "'r tokenizer"

datatype 'r outcome = Break | Throw exn | Continue "'r loop_state"

text \<open>
  \<^verbatim>\<open>tokenizedExpression.push_back(tkn); prev = classify_prev(tkn); continue;\<close> with
  \<^verbatim>\<open>currentChar\<close> moved to \<open>p\<close>.
\<close>

definition emit :: "'r loop_state \<Rightarrow> 'r token \<Rightarrow> nat \<Rightarrow> 'r outcome" where
  "emit s tkn p =
     Continue (s\<lparr>currentChar := p, prev := classify_prev (Some tkn),
                 tokenizedExpression := tokenizedExpression s @ [tkn]\<rparr>)"

text \<open>
  One pass through the body of \<^verbatim>\<open>for(;;)\<close>. \<open>p\<close> is the offset after the whitespace is
  stripped and \<open>c\<close> the character there.
\<close>

definition body :: "'r real_ops \<Rightarrow> string \<Rightarrow> 'r loop_state \<Rightarrow> 'r outcome" where
  "body F expression s =
     (let p = currentChar s + length (scan isspace expression (currentChar s))
      in if p \<ge> length expression then Break
         else
           (let c = expression ! p
            in if isdigit c then
                 (if c = CHR ''0'' \<and> p + 1 < length expression
                     \<and> (expression ! (p + 1) = CHR ''b'' \<or> expression ! (p + 1) = CHR ''B'')
                  then
                    (case get_binary expression (p + 2) of
                       Inl x \<Rightarrow> Throw x
                     | Inr (number, p') \<Rightarrow>
                         Continue (s\<lparr>currentChar := p', prev := Prev_Operand,
                           tokenizedExpression := tokenizedExpression s @ [number]\<rparr>))
                  else
                    (case get_number F expression p of
                       Inl x \<Rightarrow> Throw x
                     | Inr (number, p') \<Rightarrow> emit s number p'))
               else
                 (case find (\<lambda>(symbol1, symbol2, token). c = symbol1
                              \<and> p + 1 < length expression \<and> expression ! (p + 1) = symbol2)
                         two_char_ops of
                    Some (symbol1, symbol2, token) \<Rightarrow> emit s token (p + 2)
                  | None \<Rightarrow>
                 (case find (\<lambda>(symbol, token). c = symbol) one_char_ops of
                    Some (symbol, token) \<Rightarrow> emit s token (p + 1)
                  | None \<Rightarrow>
                 if c = CHR ''!'' then
                   (if follows_expression (prev s) then emit s (Operator Factorial) (p + 1)
                    else Throw (XTokenizer expression p ''Factorial must follow Expression''))
                 else if c = CHR ''='' then emit s (Operator Assignment) (p + 1)
                 else if c = CHR ''+'' then
                   emit s (if follows_expression (prev s) then Operator Addition
                           else Operator Identity) (p + 1)
                 else if c = CHR ''-'' then
                   emit s (if follows_expression (prev s) then Operator Subtraction
                           else Operator Negation) (p + 1)
                 else if isalpha c then
                   (case get_identifier (tokenizer_of s) expression p of
                      (T, identToken, p') \<Rightarrow>
                        (let lookahead = p' + length (scan isspace expression p')
                         in if is_Function identToken
                               \<and> (lookahead \<ge> length expression
                                  \<or> expression ! lookahead \<noteq> CHR ''('')
                            then Throw (XTokenizer expression lookahead
                                          ''Function not followed by ('')
                            else emit (s\<lparr>tokenizer_of := T\<rparr>) identToken p'))
                 else Throw (XBadCharacter expression p)))))"

text \<open>
  The loop. An exception leaves the tokenizer object as the loop has made it; the
  iteration that throws does not change it.
\<close>

function tokenize_loop ::
  "'r real_ops \<Rightarrow> string \<Rightarrow> 'r loop_state \<Rightarrow> 'r tokenizer \<times> (exn + 'r token list)" where
  "tokenize_loop F expression s =
     (case body F expression s of
        Break \<Rightarrow> (tokenizer_of s, Inr (tokenizedExpression s))
      | Throw x \<Rightarrow> (tokenizer_of s, Inl x)
      | Continue s' \<Rightarrow> tokenize_loop F expression s')"
  by pat_completeness auto
termination
proof (relation "measure (\<lambda>(F, expression, s). length expression - currentChar s)")
  show "wf (measure (\<lambda>(F :: 'r real_ops, expression, s :: 'r loop_state).
              length expression - currentChar s))"
    by simp
next
  fix F :: "'r real_ops" and expression :: string and s s' :: "'r loop_state"
  assume "body F expression s = Continue s'"
  then have "currentChar s < currentChar s' \<and> currentChar s < length expression"
    unfolding body_def emit_def get_binary_def get_number_def get_identifier_def Let_def
    by (auto split: if_splits sum.splits option.splits prod.splits)
  then show "((F, expression, s'), (F, expression, s))
      \<in> measure (\<lambda>(F, expression, s). length expression - currentChar s)"
    by (simp add: diff_less_mono2)
qed

definition tokenize ::
  "'r real_ops \<Rightarrow> 'r tokenizer \<Rightarrow> string \<Rightarrow> 'r tokenizer \<times> (exn + 'r token list)" where
  "tokenize F T expression =
     tokenize_loop F expression
       \<lparr>currentChar = 0, prev = Prev_Start, tokenizedExpression = [], tokenizer_of = T\<rparr>"

text \<open>
  The states the loop of \<open>tokenize F T expression\<close> passes through, and the token emitted
  last in a state (none at the start).
\<close>

inductive reachable :: "'r real_ops \<Rightarrow> string \<Rightarrow> 'r tokenizer \<Rightarrow> 'r loop_state \<Rightarrow> bool"
  for F :: "'r real_ops" and expression :: string and T :: "'r tokenizer" where
  start: "reachable F expression T
            \<lparr>currentChar = 0, prev = Prev_Start, tokenizedExpression = [],
               tokenizer_of = T\<rparr>"
| step: "reachable F expression T s \<Longrightarrow> body F expression s = Continue s'
         \<Longrightarrow> reachable F expression T s'"

definition last_emitted :: "'r loop_state \<Rightarrow> 'r token option" where
  "last_emitted s =
     (if tokenizedExpression s = [] then None else Some (last (tokenizedExpression s)))"

section \<open>The three stages in sequence\<close>

text \<open>
  Modelled from the spec: \<^verbatim>\<open>evaluate(parse(tokenize(expression)))\<close> on one tokenizer
  instance (the driver that composes the stages is not among the sources). The variable
  slots written by the evaluator are those the tokenizer's dictionary refers to.
\<close>

definition pipeline ::
  "'r real_ops \<Rightarrow> 'r tokenizer \<Rightarrow> string \<Rightarrow> 'r tokenizer \<times> (exn + 'r operand)" where
  "pipeline F T expression =
     (case tokenize F T expression of
        (T', Inl x) \<Rightarrow> (T', Inl x)
      | (T', Inr infixTokens) \<Rightarrow>
          (case parse infixTokens of
             Inl x \<Rightarrow> (T', Inl x)
           | Inr rpnExpression \<Rightarrow>
               (case evaluate F (memory T') rpnExpression of
                  (slots', result) \<Rightarrow> (T'\<lparr>memory := slots'\<rparr>, result))))"

section \<open>An instance of the floating-point parameter\<close>

text \<open>
  The mathematical reals as the floating-point type, to run the model on concrete
  expressions. The general theorems below hold for every \<open>real_ops\<close>.
\<close>

definition ideal_of_digits :: "string \<Rightarrow> real" where
  "ideal_of_digits digits =
     (let whole = takeWhile (\<lambda>c. c \<noteq> CHR ''.'') digits;
          fraction = drop (length whole + 1) digits
      in of_int (integer_of_digits whole)
         + of_int (integer_of_digits fraction) / 10 ^ length fraction)"

definition ideal_atan2 :: "real \<Rightarrow> real \<Rightarrow> real" where
  "ideal_atan2 y x =
     (if x > 0 then arctan (y / x)
      else if x < 0 then (if y \<ge> 0 then arctan (y / x) + pi else arctan (y / x) - pi)
      else if y > 0 then pi / 2
      else if y < 0 then - pi / 2
      else 0)"

definition ideal_reals :: "real real_ops" where
  "ideal_reals =
     \<lparr>real_of_digits = ideal_of_digits,
      real_of_integer = of_int,
      real_of_bool = (\<lambda>b. if b then 1 else 0),
      real_pi = pi,
      real_e = exp 1,
      real_negate = uminus,
      real_arith = (\<lambda>op. case op of
          Addition \<Rightarrow> (+) | Subtraction \<Rightarrow> (-) | Multiplication \<Rightarrow> (*)
        | Division \<Rightarrow> (/) | _ \<Rightarrow> (powr)),
      real_compare = (\<lambda>op. case op of
          Equality \<Rightarrow> (=) | Inequality \<Rightarrow> (\<noteq>) | Less \<Rightarrow> (<) | LessEqual \<Rightarrow> (\<le>)
        | Greater \<Rightarrow> (>) | _ \<Rightarrow> (\<ge>)),
      real_fun1 = (\<lambda>f. case f of
          Abs \<Rightarrow> abs | Sin \<Rightarrow> sin | Cos \<Rightarrow> cos | Tan \<Rightarrow> tan | Arcsin \<Rightarrow> arcsin
        | Arccos \<Rightarrow> arccos | Arctan \<Rightarrow> arctan | Sqrt \<Rightarrow> sqrt | Ln \<Rightarrow> ln
        | Lb \<Rightarrow> log 2 | Log \<Rightarrow> log 10 | Exp \<Rightarrow> exp
        | Floor \<Rightarrow> (\<lambda>x. of_int \<lfloor>x\<rfloor>) | _ \<Rightarrow> (\<lambda>x. of_int \<lceil>x\<rceil>)),
      real_fun2 = (\<lambda>f. case f of
          Arctan2 \<Rightarrow> ideal_atan2 | MaxT \<Rightarrow> max | MinT \<Rightarrow> min | _ \<Rightarrow> (powr))\<rparr>"

section \<open>Properties of the evaluator\<close>

lemmas classification_defs =
  is_Operation_def is_PostfixOperator_def is_UnaryOperator_def is_BinaryOperator_def
  is_OneArgFunction_def is_TwoArgFunction_def

lemma not_operand_not_operation_iff:
  "(\<not> is_Operand token \<and> \<not> is_Operation token) = is_pseudo token"
  by (cases token) (simp_all add: is_Operation_def is_pseudo_def)

text \<open>
  Claim C10. A token that is neither an operand nor an operation (a pseudo-token in the
  postfix list) is skipped: the step for it succeeds with the store and the operand stack
  unchanged, so the loop goes on with the rest of the list as if the token were absent.
\<close>

theorem evaluate_skips_other_tokens:
  assumes "\<not> is_Operand token" and "\<not> is_Operation token"
  shows "evaluate_token F slots stack token = Inr (slots, stack)
       \<and> evaluate_loop F slots stack (token # rest) = evaluate_loop F slots stack rest"
  using assms by (cases token) (simp_all add: evaluate_token_def)

theorem evaluate_skips_other_tokens_witness:
  "\<not> is_Operand (LeftParenthesis :: real token)
   \<and> \<not> is_Operation (LeftParenthesis :: real token)
   \<and> evaluate_token ideal_reals (\<lambda>var. None) [Integer 7] LeftParenthesis
       = Inr (\<lambda>var. None, [Integer 7])
   \<and> evaluate_loop ideal_reals (\<lambda>var. None) [Integer 7] [LeftParenthesis]
       = (\<lambda>var. None, Inr (Integer 7))"
proof -
  have a: "\<not> is_Operand (LeftParenthesis :: real token)" by simp
  have b: "\<not> is_Operation (LeftParenthesis :: real token)" by (simp add: is_Operation_def)
  show ?thesis
    using a b
      evaluate_skips_other_tokens [OF a b, of ideal_reals "\<lambda>var. None" "[Integer 7]" "[]"]
    by simp
qed

text \<open>The integer power loop started at zero multiplies \<open>exponent\<close> times, or not at all.\<close>

lemma power_loop_done: "exponent \<le> i \<Longrightarrow> power_loop i exponent base result = result"
  by simp

lemma power_loop_eq:
  "i \<le> exponent \<Longrightarrow> power_loop i exponent base result = result * base ^ nat (exponent - i)"
proof (induction i exponent base result rule: power_loop.induct)
  case (1 i exponent base result)
  show ?case
  proof (cases "i < exponent")
    case True
    then have "nat (exponent - i) = Suc (nat (exponent - (i + 1)))" by simp
    with True "1.IH" show ?thesis
      by (simp del: power_loop.simps add: power_loop.simps [of i])
  next
    case False
    with "1.prems" show ?thesis by simp
  qed
qed

lemma power_loop_from_zero:
  "power_loop 0 exponent base 1 = (if exponent < 0 then 1 else base ^ nat exponent)"
  using power_loop_eq [of 0 exponent base 1]
  by (simp del: power_loop.simps add: power_loop_done)

lemma evaluate_token_binary:
  "token \<in> Operator ` {Power, Assignment, Addition, And, Division, Equality, Greater,
      GreaterEqual, Inequality, Less, LessEqual, Multiplication, Modulus, Nand, Nor, Or,
      Subtraction, Xor, Xnor}
   \<Longrightarrow> evaluate_token F slots stack token = evaluate_binary F slots stack token"
  by (auto simp: evaluate_token_def classification_defs)

text \<open>
  Claim C8. With two operands whose dereferenced values are integers \<open>base\<close> (below) and
  \<open>exponent\<close> (on top), \<open>Power\<close> replaces them by \<open>Integer 1\<close> when \<open>exponent < 0\<close> and
  by \<open>Integer (base ^ exponent)\<close> when \<open>exponent \<ge> 0\<close>; the store is unchanged.
\<close>

theorem integer_power:
  assumes "to_value F slots lhsOp = Inr (Integer_value base)"
    and "to_value F slots rhsOp = Inr (Integer_value exponent)"
  shows "evaluate_token F slots (rhsOp # lhsOp # stack) (Operator Power)
         = Inr (slots, Integer (if exponent < 0 then 1 else base ^ nat exponent) # stack)"
proof -
  have "evaluate_token F slots (rhsOp # lhsOp # stack) (Operator Power)
        = evaluate_binary F slots (rhsOp # lhsOp # stack) (Operator Power)"
    by (rule evaluate_token_binary) simp
  also have "\<dots> = Inr (slots, Integer (power_loop 0 exponent base 1) # stack)"
    using assms
    by (simp add: evaluate_binary_def bind_exn_def binary_operation_def promote_def
        holds_Real_def arithmetic_def get_Integers_def get_Integer_def
        del: power_loop.simps)
  finally show ?thesis by (simp only: power_loop_from_zero)
qed

theorem integer_power_witness:
  "to_value ideal_reals (\<lambda>var. None) (Integer 2) = Inr (Integer_value 2)
   \<and> to_value ideal_reals (\<lambda>var. None) (Integer (- 3)) = Inr (Integer_value (- 3))
   \<and> evaluate_token ideal_reals (\<lambda>var. None) [Integer (- 3), Integer 2] (Operator Power)
       = Inr (\<lambda>var. None, [Integer 1])"
proof -
  have a: "to_value ideal_reals (\<lambda>var. None) (Integer 2) = Inr (Integer_value 2)"
    by (simp add: to_value_def)
  have b: "to_value ideal_reals (\<lambda>var. None) (Integer (- 3)) = Inr (Integer_value (- 3))"
    by (simp add: to_value_def)
  show ?thesis using a b integer_power [OF a b, of "[]"] by simp
qed

text \<open>The factorial loop started at one computes the factorial of its bound.\<close>

lemma factorial_loop_fact:
  "1 \<le> i \<Longrightarrow> i \<le> ival + 1
   \<Longrightarrow> factorial_loop i ival (fact (nat (i - 1))) = fact (nat ival)"
proof (induction i ival "fact (nat (i - 1)) :: int" rule: factorial_loop.induct)
  case (1 i ival)
  show ?case
  proof (cases "i \<le> ival")
    case True
    from "1.prems" have "nat i = Suc (nat (i - 1))" by simp
    then have step: "(fact (nat (i - 1)) :: int) * i = fact (nat (i + 1 - 1))"
      using "1.prems" by simp
    have "factorial_loop i ival (fact (nat (i - 1)))
          = factorial_loop (i + 1) ival (fact (nat (i - 1)) * i)"
      using True by (simp del: factorial_loop.simps add: factorial_loop.simps [of i])
    also have "\<dots> = fact (nat ival)"
      using "1.hyps" [OF True step] True "1.prems" step by simp
    finally show ?thesis .
  next
    case False
    with "1.prems" have "i = ival + 1" by simp
    then show ?thesis by simp
  qed
qed

lemma factorial_loop_from_one: "0 \<le> ival \<Longrightarrow> factorial_loop 1 ival 1 = fact (nat ival)"
  using factorial_loop_fact [of 1 ival] by (simp del: factorial_loop.simps)

text \<open>
  Claim C5. \<open>Factorial\<close> pops one operand. When its dereferenced value is an integer
  \<open>n \<ge> 0\<close> it pushes the integer \<open>n!\<close>, the product of \<open>1, \<dots>, n\<close> with \<open>0! = 1\<close>;
  when the value is a negative integer, a real or a boolean the evaluation fails with
  the runtime error whose text is \<^verbatim>\<open>Error: unsupported operand\<close>.
\<close>

theorem factorial_operator:
  assumes "to_value F slots operand = Inr val"
  shows "evaluate_token F slots (operand # stack) (Operator Factorial)
         = (case val of
              Integer_value n \<Rightarrow>
                if 0 \<le> n then Inr (slots, Integer (fact (nat n)) # stack)
                else Inl (Runtime_error ''Error: unsupported operand'')
            | Real_value r \<Rightarrow> Inl (Runtime_error ''Error: unsupported operand'')
            | Bool_value b \<Rightarrow> Inl (Runtime_error ''Error: unsupported operand''))"
proof -
  have "evaluate_token F slots (operand # stack) (Operator Factorial)
        = evaluate_postfix F slots (operand # stack)"
    by (simp add: evaluate_token_def classification_defs)
  then show ?thesis
    using assms
    by (cases val)
      (simp_all add: evaluate_postfix_def bind_exn_def holds_Integer_def get_Integer_def
        factorial_loop_from_one del: factorial_loop.simps)
qed

theorem factorial_operator_witness:
  "to_value ideal_reals (\<lambda>var. None) (Integer 5) = Inr (Integer_value 5)
   \<and> evaluate_token ideal_reals (\<lambda>var. None) [Integer 5] (Operator Factorial)
       = Inr (\<lambda>var. None, [Integer 120])
   \<and> to_value ideal_reals (\<lambda>var. None) (Integer (- 1)) = Inr (Integer_value (- 1))
   \<and> evaluate_token ideal_reals (\<lambda>var. None) [Integer (- 1)] (Operator Factorial)
       = Inl (Runtime_error ''Error: unsupported operand'')
   \<and> to_value ideal_reals (\<lambda>var. None) TrueT = Inr (Bool_value True)
   \<and> evaluate_token ideal_reals (\<lambda>var. None) [TrueT] (Operator Factorial)
       = Inl (Runtime_error ''Error: unsupported operand'')"
proof -
  have a: "to_value ideal_reals (\<lambda>var. None) (Integer 5) = Inr (Integer_value 5)"
    by (simp add: to_value_def)
  have b: "to_value ideal_reals (\<lambda>var. None) (Integer (- 1)) = Inr (Integer_value (- 1))"
    by (simp add: to_value_def)
  have c: "to_value ideal_reals (\<lambda>var. None) TrueT = Inr (Bool_value True)"
    by (simp add: to_value_def)
  have f: "fact (nat 5) = (120 :: int)" by (simp add: fact_numeral eval_nat_numeral)
  show ?thesis
    using a b c factorial_operator [OF a, of "[]"] factorial_operator [OF b, of "[]"]
      factorial_operator [OF c, of "[]"] f
    by simp
qed

text \<open>
  Claim C9. The unary operators dereference their operand before they look at the
  operator: a failure of the dereference is the failure of every unary operator. So
  \<open>Identity\<close> on a variable with an empty slot fails with
  \<^verbatim>\<open>Error: variable not initialized\<close>, and \<open>Identity\<close> on an operand that dereferences
  pushes that same operand back (a variable stays the variable handle).
\<close>

theorem unary_dereferences_first:
  "(is_UnaryOperator token \<and> to_value F slots operand = Inl x
      \<longrightarrow> evaluate_token F slots (operand # stack) token = Inl x)
   \<and> (slots var = None
      \<longrightarrow> evaluate_token F slots (Variable var # stack) (Operator Identity)
          = Inl (Runtime_error ''Error: variable not initialized''))
   \<and> (to_value F slots operand = Inr val
      \<longrightarrow> evaluate_token F slots (operand # stack) (Operator Identity)
          = Inr (slots, operand # stack))"
proof (intro conjI impI)
  assume "is_UnaryOperator token \<and> to_value F slots operand = Inl x"
  then show "evaluate_token F slots (operand # stack) token = Inl x"
    by (auto simp: evaluate_token_def classification_defs evaluate_postfix_def
        evaluate_unary_def bind_exn_def)
next
  assume "slots var = None"
  then show "evaluate_token F slots (Variable var # stack) (Operator Identity)
             = Inl (Runtime_error ''Error: variable not initialized'')"
    by (simp add: evaluate_token_def classification_defs evaluate_unary_def bind_exn_def
        to_value_def)
next
  assume "to_value F slots operand = Inr val"
  then show "evaluate_token F slots (operand # stack) (Operator Identity)
             = Inr (slots, operand # stack)"
    by (simp add: evaluate_token_def classification_defs evaluate_unary_def bind_exn_def)
qed

theorem unary_dereferences_first_witness:
  "is_UnaryOperator (Operator Negation :: real token)
   \<and> to_value ideal_reals (\<lambda>var. None) (Variable 0)
       = Inl (Runtime_error ''Error: variable not initialized'')
   \<and> evaluate_token ideal_reals (\<lambda>var. None) [Variable 0] (Operator Negation)
       = Inl (Runtime_error ''Error: variable not initialized'')
   \<and> evaluate_token ideal_reals (\<lambda>var. None) [Variable 0] (Operator Identity)
       = Inl (Runtime_error ''Error: variable not initialized'')
   \<and> to_value ideal_reals [0 \<mapsto> Integer_value 4] (Variable 0) = Inr (Integer_value 4)
   \<and> evaluate_token ideal_reals [0 \<mapsto> Integer_value 4] [Variable 0] (Operator Identity)
       = Inr ([0 \<mapsto> Integer_value 4], [Variable 0])"
proof -
  have a: "is_UnaryOperator (Operator Negation :: real token)"
    by (simp add: is_UnaryOperator_def)
  have b: "to_value ideal_reals (\<lambda>var. None) (Variable 0)
       = Inl (Runtime_error ''Error: variable not initialized'')"
    by (simp add: to_value_def)
  have c: "to_value ideal_reals [0 \<mapsto> Integer_value 4] (Variable 0) = Inr (Integer_value 4)"
    by (simp add: to_value_def)
  have d: "(\<lambda>var. None :: real Value option) 0 = None" by simp
  show ?thesis
    using a b c
      unary_dereferences_first [of "Operator Negation" ideal_reals "\<lambda>var. None" "Variable 0"
        "Runtime_error ''Error: variable not initialized''" "[]" 0 "Integer_value 4"]
      unary_dereferences_first [of "Operator Negation" ideal_reals "[0 \<mapsto> Integer_value 4]"
        "Variable 0" "Runtime_error ''Error: variable not initialized''" "[]" 1
        "Integer_value 4"]
    by simp
qed

section \<open>Properties of the parser\<close>

lemma rpn_token_iff:
  "(is_Operand t \<or> is_Operator t \<or> is_Function t) = (\<not> is_pseudo t)"
  by (cases t) (simp_all add: is_pseudo_def)

lemma pop_to_left_paren_inv:
  "pop_to_left_paren opStack out = (opStack', out')
   \<Longrightarrow> \<forall>t \<in> set opStack. stack_token t \<Longrightarrow> \<forall>t \<in> set out. \<not> is_pseudo t
   \<Longrightarrow> (\<forall>t \<in> set opStack'. stack_token t) \<and> (\<forall>t \<in> set out'. \<not> is_pseudo t)"
proof (induction opStack out rule: pop_to_left_paren.induct)
  case (1 out)
  then show ?case by simp
next
  case (2 topTok opStack out)
  show ?case
  proof (cases "topTok = LeftParenthesis")
    case True
    with 2 show ?thesis by auto
  next
    case False
    with "2.prems" have "\<not> is_pseudo topTok" by (auto simp: is_pseudo_def stack_token_def)
    with False 2 show ?thesis by auto
  qed
qed

lemma pop_operators_inv:
  "pop_operators token opStack out = (opStack', out')
   \<Longrightarrow> \<forall>t \<in> set opStack. stack_token t \<Longrightarrow> \<forall>t \<in> set out. \<not> is_pseudo t
   \<Longrightarrow> (\<forall>t \<in> set opStack'. stack_token t) \<and> (\<forall>t \<in> set out'. \<not> is_pseudo t)"
proof (induction token opStack out rule: pop_operators.induct)
  case (1 token out)
  then show ?case by simp
next
  case (2 token topTok opStack out)
  show ?case
  proof (cases "is_Operator topTok \<and> pops_before topTok token")
    case True
    then have "\<not> is_pseudo topTok" by (cases topTok) (simp_all add: is_pseudo_def)
    with True 2 show ?thesis by auto
  next
    case False
    with 2 show ?thesis by (auto split: if_splits)
  qed
qed

lemma drain_inv:
  "drain opStack out = Inr rpn
   \<Longrightarrow> \<forall>t \<in> set opStack. stack_token t \<Longrightarrow> \<forall>t \<in> set out. \<not> is_pseudo t
   \<Longrightarrow> \<forall>t \<in> set rpn. \<not> is_pseudo t"
proof (induction opStack out rule: drain.induct)
  case (1 out)
  then show ?case by simp
next
  case (2 topTok opStack out)
  from "2.prems"(1) have ne: "topTok \<noteq> LeftParenthesis" by (auto split: if_splits)
  with "2.prems" have "\<not> is_pseudo topTok" by (auto simp: is_pseudo_def stack_token_def)
  with ne 2 show ?case by auto
qed

lemma parse_loop_inv:
  "parse_loop infixTokens opStack out = Inr rpn
   \<Longrightarrow> \<forall>t \<in> set opStack. stack_token t \<Longrightarrow> \<forall>t \<in> set out. \<not> is_pseudo t
   \<Longrightarrow> \<forall>t \<in> set rpn. \<not> is_pseudo t"
proof (induction infixTokens arbitrary: opStack out)
  case Nil
  then show ?case using drain_inv by simp
next
  case (Cons token rest)
  show ?case
  proof (cases token)
    case (Operand x)
    with Cons.prems Cons.IH [of opStack "out @ [token]"] show ?thesis
      by (simp add: is_pseudo_def)
  next
    case (Operator x)
    obtain opStack' out' where po: "pop_operators token opStack out = (opStack', out')"
      by (cases "pop_operators token opStack out")
    from pop_operators_inv [OF po] Cons.prems
    have "(\<forall>t \<in> set opStack'. stack_token t) \<and> (\<forall>t \<in> set out'. \<not> is_pseudo t)" by simp
    with Cons.prems Cons.IH [of "token # opStack'" out'] po Operator show ?thesis
      by (simp add: stack_token_def)
  next
    case (Function x)
    with Cons.prems Cons.IH [of "token # opStack" out] show ?thesis
      by (simp add: stack_token_def)
  next
    case LeftParenthesis
    with Cons.prems Cons.IH [of "token # opStack" out] show ?thesis
      by (simp add: stack_token_def)
  next
    case RightParenthesis
    obtain opStack' out' where po: "pop_to_left_paren opStack out = (opStack', out')"
      by (cases "pop_to_left_paren opStack out")
    from pop_to_left_paren_inv [OF po] Cons.prems
    have inv: "(\<forall>t \<in> set opStack'. stack_token t) \<and> (\<forall>t \<in> set out'. \<not> is_pseudo t)"
      by simp
    show ?thesis
    proof (cases opStack')
      case Nil
      with Cons.prems po RightParenthesis show ?thesis by simp
    next
      case outer: (Cons paren below)
      show ?thesis
      proof (cases below)
        case Nil
        with outer Cons.prems po RightParenthesis inv Cons.IH [of "[]" out'] show ?thesis
          by simp
      next
        case inner: (Cons topTok opStack'')
        show ?thesis
        proof (cases "is_Function topTok")
          case True
          then have "\<not> is_pseudo topTok" by (cases topTok) (simp_all add: is_pseudo_def)
          with True inner outer Cons.prems po RightParenthesis inv
            Cons.IH [of opStack'' "out' @ [topTok]"] show ?thesis
            by simp
        next
          case False
          with inner outer Cons.prems po RightParenthesis inv
            Cons.IH [of "topTok # opStack''" out'] show ?thesis
            by simp
        qed
      qed
    qed
  next
    case ArgumentSeparator
    obtain opStack' out' where po: "pop_to_left_paren opStack out = (opStack', out')"
      by (cases "pop_to_left_paren opStack out")
    from pop_to_left_paren_inv [OF po] Cons.prems
    have "(\<forall>t \<in> set opStack'. stack_token t) \<and> (\<forall>t \<in> set out'. \<not> is_pseudo t)" by simp
    with Cons.prems Cons.IH [of opStack' out'] po ArgumentSeparator show ?thesis
      by simp
  qed
qed

lemma parse_no_pseudo: "parse infixTokens = Inr rpn \<Longrightarrow> \<forall>t \<in> set rpn. \<not> is_pseudo t"
  unfolding parse_def using parse_loop_inv [of infixTokens "[]" "[]" rpn] by simp

lemmas tokenizer_defs =
  tokenize_def new_tokenizer_def body_def scan_def isspace_def isdigit_def isalpha_def
  isalnum_def get_number_def get_binary_def get_identifier_def emit_def Let_def
  two_char_ops_def one_char_ops_def classify_prev_def integer_of_digits_def digit_value_def
  is_PostfixOperator_def follows_expression_def keywords_m_def is_bit_def

lemmas parser_defs = parse_def pops_before_def precedence_def is_right_associative_def

lemmas evaluator_defs =
  evaluate_def evaluate_token_def is_Operation_def is_PostfixOperator_def
  is_UnaryOperator_def is_BinaryOperator_def is_OneArgFunction_def is_TwoArgFunction_def
  evaluate_postfix_def evaluate_unary_def evaluate_binary_def evaluate_one_arg_def
  evaluate_two_arg_def binary_operation_def arithmetic_def relational_def promote_def
  bind_exn_def to_value_def get_real_def get_Reals_def get_Integers_def get_bools_def
  get_Real_def get_Integer_def get_bool_def holds_Real_def holds_Integer_def to_real_def
  variant_eq_def variant_ne_def integer_div_def integer_mod_def

text \<open>
  Claim C3. Whenever the tokenizer accepts an expression and the parser returns a list for
  its tokens, every token of that list is an operand, an operator or a function, and none
  is a left parenthesis, a right parenthesis or an argument separator.
\<close>

theorem parse_output_has_no_pseudo_tokens:
  assumes "tokenize F T expression = (T', Inr infixTokens)"
    and "parse infixTokens = Inr rpn"
  shows "\<forall>t \<in> set rpn. (is_Operand t \<or> is_Operator t \<or> is_Function t)
           \<and> t \<noteq> LeftParenthesis \<and> t \<noteq> RightParenthesis \<and> t \<noteq> ArgumentSeparator"
proof
  fix t assume "t \<in> set rpn"
  with parse_no_pseudo [OF assms(2)] have "\<not> is_pseudo t" by simp
  then show "(is_Operand t \<or> is_Operator t \<or> is_Function t)
           \<and> t \<noteq> LeftParenthesis \<and> t \<noteq> RightParenthesis \<and> t \<noteq> ArgumentSeparator"
    by (cases t) (simp_all add: is_pseudo_def)
qed

text \<open>An expression with a function call, parentheses, a variable and a factorial.\<close>

lemma tokenize_example:
  "snd (tokenize ideal_reals new_tokenizer ''max(1, 2) * (3 + x)!'')
   = Inr [Function MaxT, LeftParenthesis, Operand (Integer 1), ArgumentSeparator,
          Operand (Integer 2), RightParenthesis, Operator Multiplication, LeftParenthesis,
          Operand (Integer 3), Operator Addition, Operand (Variable 0), RightParenthesis,
          Operator Factorial]"
  by (simp add: tokenizer_defs)

lemma parse_example:
  "parse [Function MaxT, LeftParenthesis, Operand (Integer 1), ArgumentSeparator,
          Operand (Integer 2), RightParenthesis, Operator Multiplication, LeftParenthesis,
          Operand (Integer 3), Operator Addition, Operand (Variable 0), RightParenthesis,
          Operator Factorial]
   = Inr [Operand (Integer 1), Operand (Integer 2), Function MaxT, Operand (Integer 3),
          Operand (Variable 0), Operator Addition, Operator Factorial,
          Operator Multiplication :: real token]"
  by (simp add: parser_defs)

theorem parse_output_has_no_pseudo_tokens_witness:
  "snd (tokenize ideal_reals new_tokenizer ''max(1, 2) * (3 + x)!'')
   = Inr [Function MaxT, LeftParenthesis, Operand (Integer 1), ArgumentSeparator,
          Operand (Integer 2), RightParenthesis, Operator Multiplication, LeftParenthesis,
          Operand (Integer 3), Operator Addition, Operand (Variable 0), RightParenthesis,
          Operator Factorial]
   \<and> parse [Function MaxT, LeftParenthesis, Operand (Integer 1), ArgumentSeparator,
          Operand (Integer 2), RightParenthesis, Operator Multiplication, LeftParenthesis,
          Operand (Integer 3), Operator Addition, Operand (Variable 0), RightParenthesis,
          Operator Factorial]
   = Inr [Operand (Integer 1), Operand (Integer 2), Function MaxT, Operand (Integer 3),
          Operand (Variable 0), Operator Addition, Operator Factorial,
          Operator Multiplication :: real token]
   \<and> list_all (\<lambda>t. (is_Operand t \<or> is_Operator t \<or> is_Function t)
           \<and> t \<noteq> LeftParenthesis \<and> t \<noteq> RightParenthesis \<and> t \<noteq> ArgumentSeparator)
        [Operand (Integer 1), Operand (Integer 2), Function MaxT, Operand (Integer 3),
          Operand (Variable 0), Operator Addition, Operator Factorial,
          Operator Multiplication :: real token]"
proof -
  have a: "tokenize ideal_reals new_tokenizer ''max(1, 2) * (3 + x)!''
      = (fst (tokenize ideal_reals new_tokenizer ''max(1, 2) * (3 + x)!''),
         Inr [Function MaxT, LeftParenthesis, Operand (Integer 1), ArgumentSeparator,
          Operand (Integer 2), RightParenthesis, Operator Multiplication, LeftParenthesis,
          Operand (Integer 3), Operator Addition, Operand (Variable 0), RightParenthesis,
          Operator Factorial])"
    using tokenize_example by (metis prod.collapse)
  from parse_output_has_no_pseudo_tokens [OF a parse_example]
  show ?thesis
    using tokenize_example parse_example by (simp only: list_all_iff simp_thms)
qed

lemma pop_operators_eq:
  "pop_operators token opStack out
   = (dropWhile (\<lambda>t. is_Operator t \<and> pops_before t token) opStack,
      out @ takeWhile (\<lambda>t. is_Operator t \<and> pops_before t token) opStack)"
  by (induction token opStack out rule: pop_operators.induct) simp_all

lemma snd_pipeline:
  "snd (pipeline F T expression)
   = (case snd (tokenize F T expression) of
        Inl x \<Rightarrow> Inl x
      | Inr infixTokens \<Rightarrow>
          (case parse infixTokens of
             Inl x \<Rightarrow> Inl x
           | Inr rpnExpression \<Rightarrow>
               snd (evaluate F (memory (fst (tokenize F T expression))) rpnExpression)))"
  by (simp add: pipeline_def split: prod.splits sum.splits)

lemma pipeline_power_example:
  "snd (pipeline F new_tokenizer ''2 ** 3 ** 2'') = Inr (Integer 512)"
proof -
  have t: "snd (tokenize F new_tokenizer ''2 ** 3 ** 2'')
      = Inr [Operand (Integer 2), Operator Power, Operand (Integer 3), Operator Power,
             Operand (Integer 2)]"
    by (simp add: tokenizer_defs)
  have p: "parse [Operand (Integer 2), Operator Power, Operand (Integer 3), Operator Power,
             Operand (Integer 2)]
      = Inr [Operand (Integer 2), Operand (Integer 3), Operand (Integer 2), Operator Power,
             Operator Power :: 'a token]"
    by (simp add: parser_defs)
  have e: "snd (evaluate F slots [Operand (Integer 2), Operand (Integer 3),
             Operand (Integer 2), Operator Power, Operator Power])
      = Inr (Integer 512)" for slots
    by (simp add: evaluator_defs power_loop_from_zero del: power_loop.simps)
  show ?thesis by (simp add: snd_pipeline t p e)
qed

text \<open>
  Claim C4. Before pushing an incoming operator, the parser moves to the output exactly
  the longest run of stacked operators \<open>t\<close>, from the top, that have a higher precedence
  than the incoming one, or the same precedence while the incoming one is neither
  \<open>Power\<close> nor \<open>Assignment\<close>; then it pushes the incoming operator. For the
  expression \<^verbatim>\<open>2 ** 3 ** 2\<close> the three stages yield \<open>Integer 512\<close>, whatever the
  floating-point operations are.
\<close>

theorem operator_popping_rule:
  "pop_operators (token :: 'r token) opStack out
     = (dropWhile (\<lambda>t. is_Operator t
           \<and> (precedence t > precedence token
              \<or> (precedence t = precedence token
                 \<and> token \<noteq> Operator Power \<and> token \<noteq> Operator Assignment))) opStack,
        out @ takeWhile (\<lambda>t. is_Operator t
           \<and> (precedence t > precedence token
              \<or> (precedence t = precedence token
                 \<and> token \<noteq> Operator Power \<and> token \<noteq> Operator Assignment))) opStack)
   \<and> (is_Operator token \<longrightarrow>
        parse_loop (token # rest) opStack out
        = parse_loop rest (token # fst (pop_operators token opStack out))
            (snd (pop_operators token opStack out)))
   \<and> snd (pipeline (F :: 'r real_ops) new_tokenizer ''2 ** 3 ** 2'') = Inr (Integer 512)"
proof (intro conjI impI)
  assume "is_Operator token"
  then show "parse_loop (token # rest) opStack out
        = parse_loop rest (token # fst (pop_operators token opStack out))
            (snd (pop_operators token opStack out))"
    by (cases token) (simp_all add: case_prod_beta)
qed (simp_all add: pop_operators_eq pops_before_def is_right_associative_def Let_def
      pipeline_power_example)

theorem operator_popping_rule_witness:
  "pop_operators (Operator Addition :: real token)
       [Operator Multiplication, Operator Power, LeftParenthesis, Operator Negation] []
     = ([LeftParenthesis, Operator Negation], [Operator Multiplication, Operator Power])
   \<and> pop_operators (Operator Power :: real token) [Operator Power, Operator Addition] []
     = ([Operator Power, Operator Addition], [])
   \<and> pop_operators (Operator Subtraction :: real token)
       [Operator Addition, Operator Assignment] []
     = ([Operator Assignment], [Operator Addition])
   \<and> is_Operator (Operator Power :: real token)
   \<and> parse_loop [Operator Power :: real token] [Operator Power, Operator Addition] []
     = parse_loop [] [Operator Power, Operator Power, Operator Addition] []
   \<and> snd (pipeline ideal_reals new_tokenizer ''2 ** 3 ** 2'') = Inr (Integer 512)"
  using
    operator_popping_rule [of "Operator Addition"
      "[Operator Multiplication, Operator Power, LeftParenthesis, Operator Negation]" "[]"
      "[]" ideal_reals]
    operator_popping_rule [of "Operator Power" "[Operator Power, Operator Addition]" "[]"
      "[]" ideal_reals]
    operator_popping_rule [of "Operator Subtraction" "[Operator Addition, Operator Assignment]"
      "[]" "[]" ideal_reals]
  by (simp add: precedence_def del: pop_operators.simps parse_loop.simps)

section \<open>Properties of the tokenizer\<close>

lemma get_binary_Operand:
  "get_binary expression p = Inr (number, p') \<Longrightarrow> classify_prev (Some number) = Prev_Operand"
  by (auto simp: get_binary_def classify_prev_def Let_def split: if_splits)

text \<open>
  Every pass of the loop that continues appends one token and sets the previous category
  to the category of that token, so the previous category is always that of the token
  emitted last, whatever whitespace was skipped since.
\<close>

lemma body_Continue:
  "body F expression s = Continue s'
   \<Longrightarrow> \<exists>tkn. tokenizedExpression s' = tokenizedExpression s @ [tkn]
             \<and> prev s' = classify_prev (Some tkn)"
  unfolding body_def emit_def Let_def
  by (auto split: if_splits sum.splits option.splits prod.splits
      dest: get_binary_Operand [symmetric])

lemma reachable_prev:
  "reachable F expression T s \<Longrightarrow> prev s = classify_prev (last_emitted s)"
proof (induction rule: reachable.induct)
  case start
  show ?case by (simp add: last_emitted_def classify_prev_def)
next
  case (step s s')
  from body_Continue [OF step.hyps(2)] show ?case by (auto simp: last_emitted_def)
qed

text \<open>The loop of \<open>tokenize\<close> passes through the reachable states.\<close>

lemma tokenize_from_reachable:
  "reachable F expression T s \<Longrightarrow> tokenize F T expression = tokenize_loop F expression s"
proof (induction rule: reachable.induct)
  case start
  show ?case by (simp only: tokenize_def)
next
  case (step s s')
  from step.hyps(2) have "tokenize_loop F expression s = tokenize_loop F expression s'"
    by simp
  with step.IH show ?case by simp
qed

lemma body_sign:
  assumes "p = currentChar s + length (scan isspace expression (currentChar s))"
    and "p < length expression"
  shows "expression ! p = CHR ''+'' \<Longrightarrow> body F expression s
          = emit s (if follows_expression (prev s) then Operator Addition
                    else Operator Identity) (p + 1)"
    and "expression ! p = CHR ''-'' \<Longrightarrow> body F expression s
          = emit s (if follows_expression (prev s) then Operator Subtraction
                    else Operator Negation) (p + 1)"
  using assms
  by (simp_all add: body_def Let_def isdigit_def two_char_ops_def one_char_ops_def)

text \<open>At the start of the expression a sign is unary, after any leading whitespace.\<close>

lemma sign_at_start:
  assumes "p = length (scan isspace expression 0)" and "p < length expression"
    and "s = \<lparr>currentChar = 0, prev = Prev_Start, tokenizedExpression = [],
               tokenizer_of = T\<rparr>"
  shows "expression ! p = CHR ''+'' \<Longrightarrow> body F expression s
          = Continue (s\<lparr>currentChar := p + 1, prev := Prev_Other,
                        tokenizedExpression := [Operator Identity]\<rparr>)"
    and "expression ! p = CHR ''-'' \<Longrightarrow> body F expression s
          = Continue (s\<lparr>currentChar := p + 1, prev := Prev_Other,
                        tokenizedExpression := [Operator Negation]\<rparr>)"
  using body_sign [of p s expression F] assms
  by (simp_all add: emit_def follows_expression_def classify_prev_def
      is_PostfixOperator_def)

text \<open>
  Claim C7. In any state the tokenizer's loop reaches, when the next character after the
  whitespace is \<open>+\<close> or \<open>-\<close>, the loop emits \<open>Addition\<close> or \<open>Subtraction\<close> if the
  category of the token emitted last is \<open>Operand\<close>, \<open>PostfixOp\<close> or
  \<open>RightParenthesis\<close>, and \<open>Identity\<close> or \<open>Negation\<close> otherwise; with no token emitted
  yet the category is \<open>Start\<close>. The category depends on the emitted tokens only, not on
  the whitespace skipped.
\<close>

theorem sign_tokens_follow_previous_category:
  assumes "reachable F expression T s"
    and "p = currentChar s + length (scan isspace expression (currentChar s))"
    and "p < length expression"
  shows "(expression ! p = CHR ''+'' \<longrightarrow>
           body F expression s
           = Continue (s\<lparr>currentChar := p + 1, prev := Prev_Other,
               tokenizedExpression := tokenizedExpression s
                 @ [if classify_prev (last_emitted s)
                       \<in> {Prev_Operand, Prev_PostfixOp, Prev_RightParenthesis}
                    then Operator Addition else Operator Identity]\<rparr>))
       \<and> (expression ! p = CHR ''-'' \<longrightarrow>
           body F expression s
           = Continue (s\<lparr>currentChar := p + 1, prev := Prev_Other,
               tokenizedExpression := tokenizedExpression s
                 @ [if classify_prev (last_emitted s)
                       \<in> {Prev_Operand, Prev_PostfixOp, Prev_RightParenthesis}
                    then Operator Subtraction else Operator Negation]\<rparr>))"
  using body_sign [OF assms(2,3), of F] reachable_prev [OF assms(1)]
  by (auto simp: emit_def follows_expression_def classify_prev_def is_PostfixOperator_def)

theorem sign_tokens_follow_previous_category_witness:
  "reachable ideal_reals ''3 - -4'' new_tokenizer
     \<lparr>currentChar = 1, prev = Prev_Operand, tokenizedExpression = [Operand (Integer 3)],
        tokenizer_of = new_tokenizer\<rparr>
   \<and> ''3 - -4'' ! 2 = CHR ''-''
   \<and> body ideal_reals ''3 - -4''
         \<lparr>currentChar = 1, prev = Prev_Operand, tokenizedExpression = [Operand (Integer 3)],
            tokenizer_of = new_tokenizer\<rparr>
       = Continue \<lparr>currentChar = 3, prev = Prev_Other,
            tokenizedExpression = [Operand (Integer 3), Operator Subtraction],
            tokenizer_of = new_tokenizer\<rparr>
   \<and> reachable ideal_reals ''3 - -4'' new_tokenizer
         \<lparr>currentChar = 3, prev = Prev_Other,
            tokenizedExpression = [Operand (Integer 3), Operator Subtraction],
            tokenizer_of = new_tokenizer\<rparr>
   \<and> ''3 - -4'' ! 4 = CHR ''-''
   \<and> body ideal_reals ''3 - -4''
         \<lparr>currentChar = 3, prev = Prev_Other,
            tokenizedExpression = [Operand (Integer 3), Operator Subtraction],
            tokenizer_of = new_tokenizer\<rparr>
       = Continue \<lparr>currentChar = 5, prev = Prev_Other,
            tokenizedExpression = [Operand (Integer 3), Operator Subtraction, Operator Negation],
            tokenizer_of = new_tokenizer\<rparr>"
proof -
  let ?e = "''3 - -4''"
  let ?s0 = "\<lparr>currentChar = 0, prev = Prev_Start, tokenizedExpression = [],
        tokenizer_of = new_tokenizer :: real tokenizer\<rparr>"
  let ?s1 = "\<lparr>currentChar = 1, prev = Prev_Operand, tokenizedExpression = [Operand (Integer 3)],
        tokenizer_of = new_tokenizer :: real tokenizer\<rparr>"
  let ?s2 = "\<lparr>currentChar = 3, prev = Prev_Other,
            tokenizedExpression = [Operand (Integer 3), Operator Subtraction],
            tokenizer_of = new_tokenizer :: real tokenizer\<rparr>"
  have b0: "body ideal_reals ?e ?s0 = Continue ?s1"
    by (simp add: tokenizer_defs)
  have r1: "reachable ideal_reals ?e new_tokenizer ?s1"
    by (rule reachable.step [OF reachable.start b0])
  have p1: "(2 :: nat) = currentChar ?s1 + length (scan isspace ?e (currentChar ?s1))"
    by (simp add: scan_def isspace_def)
  have l: "(2 :: nat) < length ?e" "(4 :: nat) < length ?e" by simp_all
  have c1: "?e ! 2 = CHR ''-''" by simp
  from sign_tokens_follow_previous_category [OF r1 p1 l(1)] c1
  have b1: "body ideal_reals ?e ?s1 = Continue ?s2"
    by (simp add: last_emitted_def classify_prev_def)
  have r2: "reachable ideal_reals ?e new_tokenizer ?s2"
    by (rule reachable.step [OF r1 b1])
  have p2: "(4 :: nat) = currentChar ?s2 + length (scan isspace ?e (currentChar ?s2))"
    by (simp add: scan_def isspace_def)
  have c2: "?e ! 4 = CHR ''-''" by simp
  from sign_tokens_follow_previous_category [OF r2 p2 l(2)] c2
  have b2: "body ideal_reals ?e ?s2 = Continue \<lparr>currentChar = 5, prev = Prev_Other,
            tokenizedExpression = [Operand (Integer 3), Operator Subtraction, Operator Negation],
            tokenizer_of = new_tokenizer\<rparr>"
    by (simp add: last_emitted_def classify_prev_def is_PostfixOperator_def)
  from r1 c1 b1 r2 c2 b2 show ?thesis by (intro conjI)
qed

section \<open>Numeric literals with a trailing dot\<close>

lemma scan_stops:
  "p < length expression \<Longrightarrow> \<not> P (expression ! p) \<Longrightarrow> scan P expression p = []"
  by (simp add: scan_def Cons_nth_drop_Suc [symmetric])

lemma get_number_trailing_dot:
  assumes "q = p + 1 + length (scan isdigit expression (p + 1))"
    and "q < length expression" and "expression ! q = CHR ''.''"
    and "length expression \<le> q + 1 \<or> \<not> isdigit (expression ! (q + 1))"
  shows "get_number F expression p
         = Inl (XTokenizer expression (q + 1) ''Tokenizer::Bad character in expression.'')"
  using assms by (auto simp: get_number_def Let_def)

text \<open>
  Claim C6, as amended. When the loop meets digits followed by \<open>.\<close> (at offset \<open>q\<close>) and
  the character after the dot is not a digit or is missing, the tokenizer fails with the
  exception \<open>XTokenizer\<close>, the tokenizer error kind, carrying the offset \<open>q + 1\<close> just
  after the dot and the message \<^verbatim>\<open>Tokenizer::Bad character in expression.\<close>; it is
  not an \<open>XBadCharacter\<close>.
\<close>

theorem trailing_dot_is_tokenizer_error:
  assumes "p = currentChar s + length (scan isspace expression (currentChar s))"
    and "p < length expression" and "isdigit (expression ! p)"
    and "q = p + 1 + length (scan isdigit expression (p + 1))"
    and "q < length expression" and "expression ! q = CHR ''.''"
    and "length expression \<le> q + 1 \<or> \<not> isdigit (expression ! (q + 1))"
  shows "body F expression s
         = Throw (XTokenizer expression (q + 1) ''Tokenizer::Bad character in expression.'')
       \<and> tokenize_loop F expression s
         = (tokenizer_of s,
            Inl (XTokenizer expression (q + 1) ''Tokenizer::Bad character in expression.''))"
proof -
  have not_binary: "\<not> (p + 1 < length expression
      \<and> (expression ! (p + 1) = CHR ''b'' \<or> expression ! (p + 1) = CHR ''B''))"
  proof
    assume b: "p + 1 < length expression
      \<and> (expression ! (p + 1) = CHR ''b'' \<or> expression ! (p + 1) = CHR ''B'')"
    then have "\<not> isdigit (expression ! (p + 1))" by (auto simp: isdigit_def)
    with b have "scan isdigit expression (p + 1) = []" by (simp add: scan_stops)
    with assms(4) have "q = p + 1" by simp
    with assms(6) b show False by auto
  qed
  then have nb: "(expression ! p = CHR ''0'' \<and> p + 1 < length expression
      \<and> (expression ! (p + 1) = CHR ''b'' \<or> expression ! (p + 1) = CHR ''B'')) = False"
    by simp
  have "body F expression s
        = Throw (XTokenizer expression (q + 1) ''Tokenizer::Bad character in expression.'')"
    using assms(2,3) get_number_trailing_dot [OF assms(4,5,6,7), of F]
    by (simp add: body_def Let_def assms(1) [symmetric] nb del: One_nat_def add_Suc_right)
  then show ?thesis by simp
qed

theorem trailing_dot_is_tokenizer_error_witness:
  "isdigit (''7 + 12.x'' ! 4) \<and> ''7 + 12.x'' ! 6 = CHR ''.''
   \<and> \<not> isdigit (''7 + 12.x'' ! 7)
   \<and> body ideal_reals ''7 + 12.x''
         \<lparr>currentChar = 3, prev = Prev_Other,
            tokenizedExpression = [Operand (Integer 7), Operator Addition],
            tokenizer_of = new_tokenizer\<rparr>
       = Throw (XTokenizer ''7 + 12.x'' 7 ''Tokenizer::Bad character in expression.'')
   \<and> tokenize_loop ideal_reals ''7 + 12.x''
         \<lparr>currentChar = 3, prev = Prev_Other,
            tokenizedExpression = [Operand (Integer 7), Operator Addition],
            tokenizer_of = new_tokenizer\<rparr>
       = (new_tokenizer,
          Inl (XTokenizer ''7 + 12.x'' 7 ''Tokenizer::Bad character in expression.''))"
proof -
  let ?e = "''7 + 12.x''"
  let ?s = "\<lparr>currentChar = 3, prev = Prev_Other,
            tokenizedExpression = [Operand (Integer 7), Operator Addition],
            tokenizer_of = new_tokenizer :: real tokenizer\<rparr>"
  have a1: "(4 :: nat) = currentChar ?s + length (scan isspace ?e (currentChar ?s))"
    by (simp add: scan_def isspace_def)
  have a2: "(4 :: nat) < length ?e" by simp
  have a3: "isdigit (?e ! 4)" by (simp add: isdigit_def)
  have a4: "(6 :: nat) = 4 + 1 + length (scan isdigit ?e (4 + 1))"
    by (simp add: scan_def isdigit_def)
  have a5: "(6 :: nat) < length ?e" by simp
  have a6: "?e ! 6 = CHR ''.''" by simp
  have a7: "\<not> isdigit (?e ! 7)" by (simp add: isdigit_def)
  then have a7': "length ?e \<le> 6 + 1 \<or> \<not> isdigit (?e ! (6 + 1))" by simp
  from trailing_dot_is_tokenizer_error [OF a1 a2 a3 a4 a5 a6 a7', of ideal_reals] a3 a6 a7
  show ?thesis by simp
qed

text \<open>
  Claim C6 as stated fails on \<^verbatim>\<open>1.\<close>: the exception is an \<open>XTokenizer\<close> with offset 2,
  not the \<open>XBadCharacter\<close> that a character starting no token gets (as \<^verbatim>\<open>$\<close> does).
\<close>

theorem trailing_dot_counterexample:
  "snd (tokenize ideal_reals new_tokenizer ''1.'')
   = Inl (XTokenizer ''1.'' 2 ''Tokenizer::Bad character in expression.'')
   \<and> snd (tokenize ideal_reals new_tokenizer ''1.'') \<noteq> Inl (XBadCharacter ''1.'' 2)
   \<and> snd (tokenize ideal_reals new_tokenizer ''$'') = Inl (XBadCharacter ''$'' 0)"
  by (simp add: tokenizer_defs)


section \<open>Assignment and the boolean operators on the code\<close>

text \<open>
  The binary branch dereferences both operands before it tests for \<open>Assignment\<close>, so an
  assignment whose target has an empty slot fails in the dereference of the target.
\<close>

lemma assignment_dereferences_target:
  assumes "slots var = None" and "to_value F slots rhsOp = Inr rhs"
  shows "evaluate_token F slots (rhsOp # Variable var # stack) (Operator Assignment)
         = Inl (Runtime_error ''Error: variable not initialized'')"
proof -
  have "evaluate_token F slots (rhsOp # Variable var # stack) (Operator Assignment)
        = evaluate_binary F slots (rhsOp # Variable var # stack) (Operator Assignment)"
    by (rule evaluate_token_binary) simp
  with assms show ?thesis
    by (simp add: evaluate_binary_def bind_exn_def to_value_def)
qed

text \<open>
  Claim C1 on the code. On a new tokenizer the expression \<^verbatim>\<open>x = 5\<close> registers the
  variable \<open>x\<close> and then fails with \<^verbatim>\<open>Error: variable not initialized\<close>; the slot of
  \<open>x\<close> stays empty, and a following \<^verbatim>\<open>x\<close> on the same tokenizer returns the variable
  handle with that empty slot instead of the value 5.
\<close>

theorem assignment_to_fresh_variable_fails:
  "pipeline ideal_reals new_tokenizer ''x = 5''
   = (\<lparr>variables_m = [(''x'', 0)], memory = (\<lambda>var. None)\<rparr>,
      Inl (Runtime_error ''Error: variable not initialized''))
   \<and> pipeline ideal_reals \<lparr>variables_m = [(''x'', 0)], memory = (\<lambda>var. None)\<rparr> ''x''
   = (\<lparr>variables_m = [(''x'', 0)], memory = (\<lambda>var. None)\<rparr>, Inr (Variable 0))"
proof -
  have t1: "tokenize ideal_reals new_tokenizer ''x = 5''
      = (\<lparr>variables_m = [(''x'', 0)], memory = (\<lambda>var. None)\<rparr>,
         Inr [Operand (Variable 0), Operator Assignment, Operand (Integer 5)])"
    by (simp add: tokenizer_defs)
  have p1: "parse [Operand (Variable 0), Operator Assignment, Operand (Integer 5)]
      = Inr [Operand (Variable 0), Operand (Integer 5), Operator Assignment :: real token]"
    by (simp add: parser_defs)
  have e1: "evaluate ideal_reals (\<lambda>var. None)
        [Operand (Variable 0), Operand (Integer 5), Operator Assignment]
      = (\<lambda>var. None, Inl (Runtime_error ''Error: variable not initialized''))"
    by (simp add: evaluator_defs)
  have t2: "tokenize ideal_reals \<lparr>variables_m = [(''x'', 0)], memory = (\<lambda>var. None)\<rparr> ''x''
      = (\<lparr>variables_m = [(''x'', 0)], memory = (\<lambda>var. None)\<rparr>,
         Inr [Operand (Variable 0)])"
    by (simp add: tokenizer_defs)
  have p2: "parse [Operand (Variable 0)] = Inr [Operand (Variable 0) :: real token]"
    by (simp add: parser_defs)
  have e2: "evaluate ideal_reals (\<lambda>var. None) [Operand (Variable 0)]
      = (\<lambda>var. None, Inr (Variable 0))"
    by (simp add: evaluator_defs)
  show ?thesis
    by (simp add: pipeline_def t1 p1 e1 t2 p2 e2)
qed


text \<open>
  On two booleans the six binary boolean operators push the boolean function of their
  name. A left operand that is an integer or a real makes \<^verbatim>\<open>std::get<bool>\<close> throw.
\<close>

lemma boolean_operator_on_booleans:
  assumes "to_value F slots lhsOp = Inr (Bool_value a)"
    and "to_value F slots rhsOp = Inr (Bool_value b)"
    and "(op, result) \<in> {(And, a \<and> b), (Or, a \<or> b), (Xor, a \<noteq> b), (Nand, \<not> (a \<and> b)),
            (Nor, \<not> (a \<or> b)), (Xnor, a = b)}"
  shows "evaluate_token F slots (rhsOp # lhsOp # stack) (Operator op)
         = Inr (slots, Boolean result # stack)"
proof -
  have "evaluate_token F slots (rhsOp # lhsOp # stack) (Operator op)
        = evaluate_binary F slots (rhsOp # lhsOp # stack) (Operator op)"
    using assms(3) by (intro evaluate_token_binary) auto
  with assms show ?thesis
    by (auto simp: evaluate_binary_def bind_exn_def binary_operation_def promote_def
        holds_Real_def get_bools_def get_bool_def)
qed

lemma boolean_operator_on_other_left_operand:
  assumes "to_value F slots lhsOp = Inr lhs" and "to_value F slots rhsOp = Inr rhs"
    and "lhs = Integer_value i \<or> lhs = Real_value r"
    and "op \<in> {And, Or, Xor, Nand, Nor, Xnor}"
  shows "evaluate_token F slots (rhsOp # lhsOp # stack) (Operator op) = Inl Bad_variant_access"
proof -
  have "evaluate_token F slots (rhsOp # lhsOp # stack) (Operator op)
        = evaluate_binary F slots (rhsOp # lhsOp # stack) (Operator op)"
    using assms(4) by (intro evaluate_token_binary) auto
  moreover from assms(3) have "get_bool lhs = Inl Bad_variant_access"
    by (auto simp: get_bool_def)
  ultimately show ?thesis
    using assms(1,2,4)
    by (auto simp: evaluate_binary_def bind_exn_def binary_operation_def get_bools_def
        split: prod.splits)
qed

text \<open>
  Claim C2 on the code. \<^verbatim>\<open>false and 5\<close> and \<^verbatim>\<open>true or 5\<close> succeed, because \<^verbatim>\<open>&&\<close> and
  \<^verbatim>\<open>||\<close> do not read the right operand; \<^verbatim>\<open>1 and 2\<close> and \<^verbatim>\<open>true xor 2\<close> fail with
  \<^verbatim>\<open>std::bad_variant_access\<close>, not with the runtime error
  \<^verbatim>\<open>Error: unsupported operand\<close> that the unary \<open>Not\<close> raises on a non-boolean.
\<close>

theorem boolean_operators_on_non_booleans:
  "snd (pipeline ideal_reals new_tokenizer ''false and 5'') = Inr (Boolean False)
   \<and> snd (pipeline ideal_reals new_tokenizer ''true or 5'') = Inr (Boolean True)
   \<and> snd (pipeline ideal_reals new_tokenizer ''1 and 2'') = Inl Bad_variant_access
   \<and> snd (pipeline ideal_reals new_tokenizer ''true xor 2'') = Inl Bad_variant_access
   \<and> snd (pipeline ideal_reals new_tokenizer ''not 2'')
       = Inl (Runtime_error ''Error: unsupported operand'')"
proof -
  have t: "snd (tokenize ideal_reals new_tokenizer ''false and 5'')
        = Inr [Operand FalseT, Operator And, Operand (Integer 5)]"
      "snd (tokenize ideal_reals new_tokenizer ''true or 5'')
        = Inr [Operand TrueT, Operator Or, Operand (Integer 5)]"
      "snd (tokenize ideal_reals new_tokenizer ''1 and 2'')
        = Inr [Operand (Integer 1), Operator And, Operand (Integer 2)]"
      "snd (tokenize ideal_reals new_tokenizer ''true xor 2'')
        = Inr [Operand TrueT, Operator Xor, Operand (Integer 2)]"
      "snd (tokenize ideal_reals new_tokenizer ''not 2'')
        = Inr [Operator NotT, Operand (Integer 2)]"
    by (simp_all add: tokenizer_defs)
  show ?thesis
    by (simp add: snd_pipeline t parser_defs evaluator_defs)
qed

end
